theory Spec2Isabelle
  imports Complex_Main "HOL-Library.Word"
begin

section \<open>OmniScale: vectors and colours\<close>

text \<open>
  The fragment shader \<^verbatim>\<open>scale\<close> computes one output colour from a source image and a
  texture coordinate. The shader is modelled twice. In the first model GLSL \<^verbatim>\<open>float\<close> is
  \<^typ>\<open>real\<close> (exact arithmetic, no rounding), \<^verbatim>\<open>vec2\<close>, \<^verbatim>\<open>vec3\<close> and \<^verbatim>\<open>vec4\<close> are
  datatypes of their components, and the arithmetic of the shader on them is given by the
  componentwise functions below; the statements about the order of the rules, the
  quadrants, the band widths and the mirrored images are made in it. In the second model
  (from the section on binary32 arithmetic on) every operation rounds its result to
  binary32 as the hardware does; the statements about exact colours, thresholds and
  interpolation factors are made in that one.
  Division is HOL's total division; every theorem that depends on a quotient assumes
  the extents positive.
\<close>

datatype vec2 = Vec2 (vx: real) (vy: real)

datatype vec3 = Vec3 (hx: real) (hy: real) (hz: real)

datatype vec4 = Vec4 (red: real) (green: real) (blue: real) (alpha: real)

text \<open>\<^verbatim>\<open>a + b\<close>, \<^verbatim>\<open>a * s\<close> and \<^verbatim>\<open>a / s\<close> on \<^verbatim>\<open>vec4\<close>.\<close>

fun vadd :: "vec4 \<Rightarrow> vec4 \<Rightarrow> vec4" where
  "vadd (Vec4 r1 g1 b1 a1) (Vec4 r2 g2 b2 a2) = Vec4 (r1 + r2) (g1 + g2) (b1 + b2) (a1 + a2)"

fun vscale :: "vec4 \<Rightarrow> real \<Rightarrow> vec4" where
  "vscale (Vec4 r1 g1 b1 a1) s = Vec4 (r1 * s) (g1 * s) (b1 * s) (a1 * s)"

fun vdiv :: "vec4 \<Rightarrow> real \<Rightarrow> vec4" where
  "vdiv (Vec4 r1 g1 b1 a1) s = Vec4 (r1 / s) (g1 / s) (b1 / s) (a1 / s)"

text \<open>The GLSL built-in \<^verbatim>\<open>mix(x, y, a) = x * (1 - a) + y * a\<close>, per channel.\<close>

definition mix :: "vec4 \<Rightarrow> vec4 \<Rightarrow> real \<Rightarrow> vec4" where
  "mix x y t = vadd (vscale x (1 - t)) (vscale y t)"

text \<open>\<^verbatim>\<open>a + b\<close> on \<^verbatim>\<open>vec2\<close>, and the GLSL built-in \<^verbatim>\<open>length\<close>.\<close>

fun vadd2 :: "vec2 \<Rightarrow> vec2 \<Rightarrow> vec2" where
  "vadd2 (Vec2 a1 b1) (Vec2 a2 b2) = Vec2 (a1 + a2) (b1 + b2)"

definition length2 :: "vec2 \<Rightarrow> real" where
  "length2 v = sqrt (vx v * vx v + vy v * vy v)"

section \<open>Colour-difference classifier\<close>

definition rgb_to_hq_colospace :: "vec4 \<Rightarrow> vec3" where
  "rgb_to_hq_colospace rgb =
     Vec3 (0.250 * red rgb + 0.250 * green rgb + 0.250 * blue rgb)
          (0.250 * red rgb - 0.000 * green rgb - 0.250 * blue rgb)
          (- 0.125 * red rgb + 0.250 * green rgb - 0.125 * blue rgb)"

definition is_different :: "vec4 \<Rightarrow> vec4 \<Rightarrow> bool" where
  "is_different a b =
     (let ha = rgb_to_hq_colospace a; hb = rgb_to_hq_colospace b;
          diff = Vec3 (abs (hx ha - hx hb)) (abs (hy ha - hy hb)) (abs (hz ha - hz hb))
      in hx diff > 0.125 \<or> hy diff > 0.027 \<or> hz diff > 0.031)"

text \<open>
  The classifier in the words of the specification: the three axes of the perceptual
  space, their thresholds, and "some axis strictly exceeds its threshold".
\<close>

definition hq_axis :: "nat \<Rightarrow> vec4 \<Rightarrow> real" where
  "hq_axis i c =
     (if i = 0 then 0.25 * red c + 0.25 * green c + 0.25 * blue c
      else if i = 1 then 0.25 * red c - 0.25 * blue c
      else - 0.125 * red c + 0.25 * green c - 0.125 * blue c)"

definition hq_threshold :: "nat \<Rightarrow> real" where
  "hq_threshold i = (if i = 0 then 0.125 else if i = 1 then 0.027 else 0.031)"

definition is_different_spec :: "vec4 \<Rightarrow> vec4 \<Rightarrow> bool" where
  "is_different_spec a b =
     list_ex (\<lambda>i. abs (hq_axis i a - hq_axis i b) > hq_threshold i) [0, 1, 2]"

section \<open>Neighbourhood sampler\<close>

text \<open>
  Modelled from the spec: the GLSL built-in \<^verbatim>\<open>texture\<close> and the sampler state are not part
  of the shader source. The specification fixes the image as an immutable grid of
  colours of fixed width and height, read with clamp-to-edge addressing; a lookup returns
  the colour of the source pixel that encloses the (normalised) coordinate.
\<close>

record image =
  img_w :: nat
  img_h :: nat
  texel :: "nat \<Rightarrow> nat \<Rightarrow> vec4"

definition clamp_index :: "int \<Rightarrow> nat \<Rightarrow> nat" where
  "clamp_index i n = nat (max 0 (min i (int n - 1)))"

definition texture :: "image \<Rightarrow> vec2 \<Rightarrow> vec4" where
  "texture img c =
     texel img (clamp_index \<lfloor>vx c * real (img_w img)\<rfloor> (img_w img))
               (clamp_index \<lfloor>vy c * real (img_h img)\<rfloor> (img_h img))"

text \<open>Lines 61 and 67: the width of a pixel and the position within a pixel.\<close>

definition pixel_offset :: "vec2 \<Rightarrow> vec2" where
  "pixel_offset textureDimensions = Vec2 (1.0 / vx textureDimensions) (1.0 / vy textureDimensions)"

definition fract_pos :: "vec2 \<Rightarrow> vec2 \<Rightarrow> vec2" where
  "fract_pos textureDimensions texCoord =
     Vec2 (frac (vx texCoord * vx textureDimensions)) (frac (vy texCoord * vy textureDimensions))"

text \<open>
  Lines 69 to 76: only the top left quarter is calculated; for another quarter the
  offset is flipped. The source's \<^verbatim>\<open>o\<close> is written \<open>ofs\<close> (\<open>o\<close> is HOL's composition).
\<close>

definition flip_quadrant :: "vec2 \<Rightarrow> vec2 \<Rightarrow> vec2 \<times> vec2" where
  "flip_quadrant ofs p =
     (let (ofs, p) =
            (if vx p > 0.5 then (Vec2 (- vx ofs) (vy ofs), Vec2 (1.0 - vx p) (vy p)) else (ofs, p));
          (ofs, p) =
            (if vy p > 0.5 then (Vec2 (vx ofs) (- vy ofs), Vec2 (vx p) (1.0 - vy p)) else (ofs, p))
      in (ofs, p))"

section \<open>Pattern encoder\<close>

text \<open>
  \<^verbatim>\<open>int pattern\<close> starts at 0 and only ever has single bits 0 to 14 set by \<^verbatim>\<open>|=\<close>, so it
  stays between 0 and \<open>2^15\<close>: it is modelled by \<^typ>\<open>nat\<close>, with HOL's bit operations.
  \<open>mark d k pattern\<close> is \<^verbatim>\<open>if (d) pattern |= 1 << k\<close>.
\<close>

definition mark :: "bool \<Rightarrow> nat \<Rightarrow> nat \<Rightarrow> nat" where
  "mark d k pattern = (if d then or pattern (push_bit k 1) else pattern)"

definition base_pattern ::
  "vec4 \<Rightarrow> vec4 \<Rightarrow> vec4 \<Rightarrow> vec4 \<Rightarrow> vec4 \<Rightarrow> vec4 \<Rightarrow> vec4 \<Rightarrow> vec4 \<Rightarrow> vec4 \<Rightarrow> nat" where
  "base_pattern w0 w1 w2 w3 w4 w5 w6 w7 w8 =
     (let pattern = 0;
          pattern = mark (is_different w0 w4) 0 pattern;
          pattern = mark (is_different w1 w4) 1 pattern;
          pattern = mark (is_different w2 w4) 2 pattern;
          pattern = mark (is_different w3 w4) 3 pattern;
          pattern = mark (is_different w5 w4) 4 pattern;
          pattern = mark (is_different w6 w4) 5 pattern;
          pattern = mark (is_different w7 w4) 6 pattern;
          pattern = mark (is_different w8 w4) 7 pattern
      in pattern)"

definition extended_pattern ::
  "nat \<Rightarrow> vec4 \<Rightarrow> vec4 \<Rightarrow> vec4 \<Rightarrow> vec4 \<Rightarrow> vec4 \<Rightarrow> vec4 \<Rightarrow> vec4 \<Rightarrow> vec4 \<Rightarrow> nat" where
  "extended_pattern pattern x0 x1 x2 x3 x4 x5 x6 w4 =
     (let pattern = mark (is_different x0 w4) 8 pattern;
          pattern = mark (is_different x1 w4) 9 pattern;
          pattern = mark (is_different x2 w4) 10 pattern;
          pattern = mark (is_different x3 w4) 11 pattern;
          pattern = mark (is_different x4 w4) 12 pattern;
          pattern = mark (is_different x5 w4) 13 pattern;
          pattern = mark (is_different x6 w4) 14 pattern
      in pattern)"

text \<open>The macro \<^verbatim>\<open>P(m, r)\<close>, with the pattern it reads made a parameter.\<close>

definition P :: "nat \<Rightarrow> nat \<Rightarrow> nat \<Rightarrow> bool" where
  "P pattern m r = (and pattern m = r)"

text \<open>
  Lines 270 to 274: \<^verbatim>\<open>while (pattern != 0) { diagonal_bias += pattern & 1; pattern >>= 1; }\<close>
\<close>

function bias_loop :: "int \<Rightarrow> nat \<Rightarrow> int" where
  "bias_loop diagonal_bias pattern =
     (if pattern \<noteq> 0
      then bias_loop (diagonal_bias + int (and pattern 1)) (drop_bit 1 pattern)
      else diagonal_bias)"
  by pat_completeness auto
termination
  by (relation "measure (\<lambda>(diagonal_bias, pattern). pattern)") (auto simp: drop_bit_eq_div)

section \<open>Rule and blend engine\<close>

text \<open>
  The expression \<^verbatim>\<open>length(1.0 / (uResolution / textureDimensions))\<close>, which every
  distance-based rule evaluates, with \<^verbatim>\<open>uResolution = targetSize.xy\<close> and
  \<^verbatim>\<open>textureDimensions = sourceSize.xy\<close>.
\<close>

definition pixel_len :: "vec2 \<Rightarrow> vec2 \<Rightarrow> real" where
  "pixel_len textureDimensions uResolution =
     length2 (Vec2 (1.0 / (vx uResolution / vx textureDimensions))
                   (1.0 / (vy uResolution / vy textureDimensions)))"

text \<open>
  The colour \<^verbatim>\<open>r\<close> of lines 121 to 127, computed by the same statements at lines 166 to
  172, 190 to 197 and 226 to 232.
\<close>

definition corner_r :: "vec4 \<Rightarrow> vec4 \<Rightarrow> vec4 \<Rightarrow> vec2 \<Rightarrow> vec4" where
  "corner_r w0 w1 w3 p =
     (if is_different w0 w1 \<or> is_different w0 w3
      then mix w1 w3 (vy p - vx p + 0.5)
      else mix (mix (vadd (vadd (vscale w1 0.375) (vscale w0 0.25)) (vscale w3 0.375)) w3
                    (vy p * 2.0))
               w1 (vx p * 2.0))"

text \<open>Lines 115 to 133, the body of \<^verbatim>\<open>if (P(0x2f,0x2f))\<close>.\<close>

definition rule_circle :: "vec2 \<Rightarrow> vec2 \<Rightarrow> vec2 \<Rightarrow> vec4 \<Rightarrow> vec4 \<Rightarrow> vec4 \<Rightarrow> vec4 \<Rightarrow> vec4" where
  "rule_circle textureDimensions uResolution p w0 w1 w3 w4 =
     (let dist = length2 (Vec2 (vx p - 0.5) (vy p - 0.5));
          pixel_size = pixel_len textureDimensions uResolution
      in if dist < 0.5 - pixel_size / 2.0 then w4
         else let r = corner_r w0 w1 w3 p
              in if dist > 0.5 + pixel_size / 2.0 then r
                 else mix w4 r ((dist - 0.5 + pixel_size / 2.0) / pixel_size))"

text \<open>Lines 134 to 145, the body of \<^verbatim>\<open>if (P(0xbf,0x37) || P(0xdb,0x13))\<close>.\<close>

definition rule_slope_x :: "vec2 \<Rightarrow> vec2 \<Rightarrow> vec2 \<Rightarrow> vec4 \<Rightarrow> vec4 \<Rightarrow> vec4 \<Rightarrow> vec4" where
  "rule_slope_x textureDimensions uResolution p w1 w3 w4 =
     (let dist = vx p - 2.0 * vy p;
          pixel_size = pixel_len textureDimensions uResolution * sqrt 5.0
      in if dist > pixel_size / 2.0 then w1
         else let r = mix w3 w4 (vx p + 0.5)
              in if dist < - pixel_size / 2.0 then r
                 else mix r w1 ((dist + pixel_size / 2.0) / pixel_size))"

text \<open>Lines 146 to 157, the body of \<^verbatim>\<open>if (P(0xdb,0x49) || P(0xef,0x6d))\<close>.\<close>

definition rule_slope_y :: "vec2 \<Rightarrow> vec2 \<Rightarrow> vec2 \<Rightarrow> vec4 \<Rightarrow> vec4 \<Rightarrow> vec4 \<Rightarrow> vec4" where
  "rule_slope_y textureDimensions uResolution p w1 w3 w4 =
     (let dist = vy p - 2.0 * vx p;
          pixel_size = pixel_len textureDimensions uResolution * sqrt 5.0
      in if vy p - 2.0 * vx p > pixel_size / 2.0 then w3
         else let r = mix w1 w4 (vx p + 0.5)
              in if dist < - pixel_size / 2.0 then r
                 else mix r w3 ((dist + pixel_size / 2.0) / pixel_size))"

text \<open>Lines 158 to 180, the body of \<^verbatim>\<open>if (P(0xbf,0x8f) || P(0x7e,0x0e))\<close>.\<close>

definition rule_far_x :: "vec2 \<Rightarrow> vec2 \<Rightarrow> vec2 \<Rightarrow> vec4 \<Rightarrow> vec4 \<Rightarrow> vec4 \<Rightarrow> vec4 \<Rightarrow> vec4" where
  "rule_far_x textureDimensions uResolution p w0 w1 w3 w4 =
     (let dist = vx p + 2.0 * vy p;
          pixel_size = pixel_len textureDimensions uResolution * sqrt 5.0
      in if dist > 1.0 + pixel_size / 2.0 then w4
         else let r = corner_r w0 w1 w3 p
              in if dist < 1.0 - pixel_size / 2.0 then r
                 else mix r w4 ((dist + pixel_size / 2.0 - 1.0) / pixel_size))"

text \<open>Lines 182 to 204, the body of \<^verbatim>\<open>if (P(0x7e,0x2a) || P(0xef,0xab))\<close>.\<close>

definition rule_far_y :: "vec2 \<Rightarrow> vec2 \<Rightarrow> vec2 \<Rightarrow> vec4 \<Rightarrow> vec4 \<Rightarrow> vec4 \<Rightarrow> vec4 \<Rightarrow> vec4" where
  "rule_far_y textureDimensions uResolution p w0 w1 w3 w4 =
     (let dist = vy p + 2.0 * vx p;
          pixel_size = pixel_len textureDimensions uResolution * sqrt 5.0
      in if vy p + 2.0 * vx p > 1.0 + pixel_size / 2.0 then w4
         else let r = corner_r w0 w1 w3 p
              in if dist < 1.0 - pixel_size / 2.0 then r
                 else mix r w4 ((dist + pixel_size / 2.0 - 1.0) / pixel_size))"

text \<open>Lines 216 to 239, the body of the rule that starts with \<^verbatim>\<open>P(0x4f,0x4b)\<close>.\<close>

definition rule_diag :: "vec2 \<Rightarrow> vec2 \<Rightarrow> vec2 \<Rightarrow> vec4 \<Rightarrow> vec4 \<Rightarrow> vec4 \<Rightarrow> vec4 \<Rightarrow> vec4" where
  "rule_diag textureDimensions uResolution p w0 w1 w3 w4 =
     (let dist = vx p + vy p;
          pixel_size = pixel_len textureDimensions uResolution
      in if dist > 0.5 + pixel_size / 2.0 then w4
         else let r = corner_r w0 w1 w3 p
              in if dist < 0.5 - pixel_size / 2.0 then r
                 else mix r w4 ((dist + pixel_size / 2.0 - 0.5) / pixel_size))"

section \<open>Diagonal disambiguator\<close>

text \<open>
  Lines 253 to 274: the seven further samples, the extended pattern and the loop that
  counts its bits into \<^verbatim>\<open>diagonal_bias\<close>.
\<close>

definition ring_bias :: "image \<Rightarrow> vec2 \<Rightarrow> vec2 \<Rightarrow> nat \<Rightarrow> vec4 \<Rightarrow> int" where
  "ring_bias img texCoord ofs pattern w4 =
     (let x0 = texture img (vadd2 texCoord (Vec2 (- vx ofs * 2.0) (- vy ofs * 2.0)));
          x1 = texture img (vadd2 texCoord (Vec2 (- vx ofs) (- vy ofs * 2.0)));
          x2 = texture img (vadd2 texCoord (Vec2 0.0 (- vy ofs * 2.0)));
          x3 = texture img (vadd2 texCoord (Vec2 (vx ofs) (- vy ofs * 2.0)));
          x4 = texture img (vadd2 texCoord (Vec2 (- vx ofs * 2.0) (- vy ofs)));
          x5 = texture img (vadd2 texCoord (Vec2 (- vx ofs * 2.0) 0.0));
          x6 = texture img (vadd2 texCoord (Vec2 (- vx ofs * 2.0) (vy ofs)));
          pattern = extended_pattern pattern x0 x1 x2 x3 x4 x5 x6 w4;
          diagonal_bias = bias_loop (- 7) pattern
      in diagonal_bias)"

text \<open>Lines 247 to 284.\<close>

definition disambiguate ::
  "vec2 \<Rightarrow> vec2 \<Rightarrow> image \<Rightarrow> vec2 \<Rightarrow> vec2 \<Rightarrow> vec2 \<Rightarrow> nat \<Rightarrow> vec4 \<Rightarrow> vec4 \<Rightarrow> vec4 \<Rightarrow> vec4" where
  "disambiguate textureDimensions uResolution img texCoord ofs p pattern w1 w3 w4 =
     (let dist = vx p + vy p;
          pixel_size = pixel_len textureDimensions uResolution
      in if dist > 0.5 + pixel_size / 2.0 then w4
         else let diagonal_bias = ring_bias img texCoord ofs pattern w4
              in if diagonal_bias \<le> 0
                 then let r = mix w1 w3 (vy p - vx p + 0.5)
                      in if dist < 0.5 - pixel_size / 2.0 then r
                         else mix r w4 ((dist + pixel_size / 2.0 - 0.5) / pixel_size)
                 else w4)"

section \<open>The function \<^verbatim>\<open>scale\<close>\<close>

text \<open>
  Lines 100 to 284: the ordered rules over the pattern, the first that matches returns.
\<close>

definition rules ::
  "vec2 \<Rightarrow> vec2 \<Rightarrow> image \<Rightarrow> vec2 \<Rightarrow> vec2 \<Rightarrow> vec2 \<Rightarrow> nat \<Rightarrow>
   vec4 \<Rightarrow> vec4 \<Rightarrow> vec4 \<Rightarrow> vec4 \<Rightarrow> vec4 \<Rightarrow> vec4 \<Rightarrow> vec4" where
  "rules textureDimensions uResolution img texCoord ofs p pattern w0 w1 w3 w4 w5 w7 =
     (if (P pattern 0xbf 0x37 \<or> P pattern 0xdb 0x13) \<and> is_different w1 w5
      then mix w4 w3 (0.5 - vx p)
      else if (P pattern 0xdb 0x49 \<or> P pattern 0xef 0x6d) \<and> is_different w7 w3
      then mix w4 w1 (0.5 - vy p)
      else if (P pattern 0x0b 0x0b \<or> P pattern 0xfe 0x4a \<or> P pattern 0xfe 0x1a)
              \<and> is_different w3 w1
      then w4
      else if (P pattern 0x6f 0x2a \<or> P pattern 0x5b 0x0a \<or> P pattern 0xbf 0x3a \<or>
               P pattern 0xdf 0x5a \<or> P pattern 0x9f 0x8a \<or> P pattern 0xcf 0x8a \<or>
               P pattern 0xef 0x4e \<or> P pattern 0x3f 0x0e \<or> P pattern 0xfb 0x5a \<or>
               P pattern 0xbb 0x8a \<or> P pattern 0x7f 0x5a \<or> P pattern 0xaf 0x8a \<or>
               P pattern 0xeb 0x8a) \<and> is_different w3 w1
      then mix w4 (mix w4 w0 (0.5 - vx p)) (0.5 - vy p)
      else if P pattern 0x0b 0x08
      then mix (mix (vadd (vadd (vscale w0 0.375) (vscale w1 0.25)) (vscale w4 0.375))
                    (vadd (vscale w4 0.5) (vscale w1 0.5)) (vx p * 2.0))
               w4 (vy p * 2.0)
      else if P pattern 0x0b 0x02
      then mix (mix (vadd (vadd (vscale w0 0.375) (vscale w3 0.25)) (vscale w4 0.375))
                    (vadd (vscale w4 0.5) (vscale w3 0.5)) (vy p * 2.0))
               w4 (vx p * 2.0)
      else if P pattern 0x2f 0x2f
      then rule_circle textureDimensions uResolution p w0 w1 w3 w4
      else if P pattern 0xbf 0x37 \<or> P pattern 0xdb 0x13
      then rule_slope_x textureDimensions uResolution p w1 w3 w4
      else if P pattern 0xdb 0x49 \<or> P pattern 0xef 0x6d
      then rule_slope_y textureDimensions uResolution p w1 w3 w4
      else if P pattern 0xbf 0x8f \<or> P pattern 0x7e 0x0e
      then rule_far_x textureDimensions uResolution p w0 w1 w3 w4
      else if P pattern 0x7e 0x2a \<or> P pattern 0xef 0xab
      then rule_far_y textureDimensions uResolution p w0 w1 w3 w4
      else if P pattern 0x1b 0x03 \<or> P pattern 0x4f 0x43 \<or> P pattern 0x8b 0x83 \<or>
              P pattern 0x6b 0x43
      then mix w4 w3 (0.5 - vx p)
      else if P pattern 0x4b 0x09 \<or> P pattern 0x8b 0x89 \<or> P pattern 0x1f 0x19 \<or>
              P pattern 0x3b 0x19
      then mix w4 w1 (0.5 - vy p)
      else if P pattern 0xfb 0x6a \<or> P pattern 0x6f 0x6e \<or> P pattern 0x3f 0x3e \<or>
              P pattern 0xfb 0xfa \<or> P pattern 0xdf 0xde \<or> P pattern 0xdf 0x1e
      then mix w4 w0 ((1.0 - vx p - vy p) / 2.0)
      else if P pattern 0x4f 0x4b \<or> P pattern 0x9f 0x1b \<or> P pattern 0x2f 0x0b \<or>
              P pattern 0xbe 0x0a \<or> P pattern 0xee 0x0a \<or> P pattern 0x7e 0x0a \<or>
              P pattern 0xeb 0x4b \<or> P pattern 0x3b 0x1b
      then rule_diag textureDimensions uResolution p w0 w1 w3 w4
      else if P pattern 0x0b 0x01
      then mix (mix w4 w3 (0.5 - vx p)) (mix w1 (vdiv (vadd w1 w3) 2.0) (0.5 - vx p))
               (0.5 - vy p)
      else if P pattern 0x0b 0x00
      then mix (mix w4 w3 (0.5 - vx p)) (mix w1 w0 (0.5 - vx p)) (0.5 - vy p)
      else disambiguate textureDimensions uResolution img texCoord ofs p pattern w1 w3 w4)"

text \<open>
  Lines 58 to 98, then the rules. The uniforms \<^verbatim>\<open>sourceSize.xy\<close> and \<^verbatim>\<open>targetSize.xy\<close>
  are the first two parameters; the sampler \<^verbatim>\<open>image\<close> is written \<open>img\<close>.
\<close>

definition scale :: "vec2 \<Rightarrow> vec2 \<Rightarrow> image \<Rightarrow> vec2 \<Rightarrow> vec4" where
  "scale textureDimensions uResolution img coord =
     (let ofs = pixel_offset textureDimensions;
          texCoord = coord;
          p = fract_pos textureDimensions texCoord;
          (ofs, p) = flip_quadrant ofs p;
          w0 = texture img (vadd2 texCoord (Vec2 (- vx ofs) (- vy ofs)));
          w1 = texture img (vadd2 texCoord (Vec2 0 (- vy ofs)));
          w2 = texture img (vadd2 texCoord (Vec2 (vx ofs) (- vy ofs)));
          w3 = texture img (vadd2 texCoord (Vec2 (- vx ofs) 0));
          w4 = texture img (vadd2 texCoord (Vec2 0 0));
          w5 = texture img (vadd2 texCoord (Vec2 (vx ofs) 0));
          w6 = texture img (vadd2 texCoord (Vec2 (- vx ofs) (vy ofs)));
          w7 = texture img (vadd2 texCoord (Vec2 0 (vy ofs)));
          w8 = texture img (vadd2 texCoord (Vec2 (vx ofs) (vy ofs)));
          pattern = base_pattern w0 w1 w2 w3 w4 w5 w6 w7 w8
      in rules textureDimensions uResolution img texCoord ofs p pattern w0 w1 w3 w4 w5 w7)"


section \<open>Images used in the statements\<close>

text \<open>An image filled with a single colour.\<close>

definition uniform_image :: "nat \<Rightarrow> nat \<Rightarrow> vec4 \<Rightarrow> image" where
  "uniform_image w h c = \<lparr>img_w = w, img_h = h, texel = (\<lambda>x y. c)\<rparr>"

text \<open>A white pixel in the middle of a black image of 5 by 5 pixels.\<close>

definition dot_image :: image where
  "dot_image = \<lparr>img_w = 5, img_h = 5,
      texel = (\<lambda>x y. if x = 2 \<and> y = 2 then Vec4 1 1 1 1 else Vec4 0 0 0 1)\<rparr>"





section \<open>The distance-based blend in the words of the specification\<close>

text \<open>
  The band width of the specification: the Euclidean length of the component-wise
  reciprocal of the target-to-source ratio, times the square root of 5 for a 2:1 slope.
\<close>

datatype edge_shape = Slope_2_to_1 | Slope_45 | Circular

definition band_width_spec :: "edge_shape \<Rightarrow> vec2 \<Rightarrow> vec2 \<Rightarrow> real" where
  "band_width_spec shape src tgt =
     (let ratio = Vec2 (vx tgt / vx src) (vy tgt / vy src);
          recip = Vec2 (1 / vx ratio) (1 / vy ratio);
          len = sqrt ((vx recip)\<^sup>2 + (vy recip)\<^sup>2)
      in if shape = Slope_2_to_1 then len * sqrt 5 else len)"

text \<open>
  Outside the band the flat colour of that side; inside, the linear interpolation of the
  two by the normalised distance across the band.
\<close>

definition aa_blend :: "real \<Rightarrow> real \<Rightarrow> real \<Rightarrow> vec4 \<Rightarrow> vec4 \<Rightarrow> vec4" where
  "aa_blend d centre width c_lo c_hi =
     (if d < centre - width / 2 then c_lo
      else if d > centre + width / 2 then c_hi
      else mix c_lo c_hi ((d - (centre - width / 2)) / width))"

section \<open>Frontend settings (setmanager.cpp)\<close>

text \<open>
  The type \<^verbatim>\<open>jg_setting_t\<close> is declared in a header that is not part of the source; of
  its fields the record keeps those that \<^verbatim>\<open>SettingManager::read\<close> reads or writes (the
  descriptive texts and the flags of an entry are left out). \<^verbatim>\<open>min\<close> and \<^verbatim>\<open>max\<close> are
  written \<open>min_val\<close> and \<open>max_val\<close>.
\<close>

record jg_setting_t =
  name :: string
  val :: int
  min_val :: int
  max_val :: int

definition fe_settings :: "jg_setting_t list" where
  "fe_settings =
     [\<lparr>name = ''v_scale'', val = 2, min_val = 1, max_val = 16\<rparr>,
      \<lparr>name = ''v_linearfilter'', val = 1, min_val = 0, max_val = 1\<rparr>,
      \<lparr>name = ''v_aspect'', val = 0, min_val = 0, max_val = 2\<rparr>,
      \<lparr>name = ''a_rsqual'', val = 2, min_val = 0, max_val = 4\<rparr>,
      \<lparr>name = ''m_ffspeed'', val = 2, min_val = 2, max_val = 8\<rparr>,
      \<lparr>name = ''m_hidecursor'', val = 0, min_val = 0, max_val = 1\<rparr>,
      \<lparr>name = ''m_hidecrosshair'', val = 0, min_val = 0, max_val = 1\<rparr>]"

text \<open>
  \<^verbatim>\<open>std::stoi\<close> in base 10, as the C++ standard library defines it: leading white space
  is skipped, an optional sign and the longest run of digits are read, what follows is
  ignored; it throws \<^verbatim>\<open>invalid_argument\<close> when there is no digit and \<^verbatim>\<open>out_of_range\<close>
  when the value is not an \<^verbatim>\<open>int\<close> of 32 bits.
\<close>

datatype stoi_error = invalid_argument | out_of_range

definition isspace :: "char \<Rightarrow> bool" where
  "isspace ch = (ch = CHR '' '' \<or> (9 \<le> (of_char ch :: nat) \<and> (of_char ch :: nat) \<le> 13))"

definition isdigit :: "char \<Rightarrow> bool" where
  "isdigit ch = (48 \<le> (of_char ch :: nat) \<and> (of_char ch :: nat) \<le> 57)"

fun digits_value :: "nat \<Rightarrow> string \<Rightarrow> nat" where
  "digits_value acc [] = acc"
| "digits_value acc (ch # cs) = digits_value (acc * 10 + (of_char ch - 48)) cs"

definition stoi :: "string \<Rightarrow> stoi_error + int" where
  "stoi str =
     (let s1 = dropWhile isspace str;
          (neg, s2) = (case s1 of
                         [] \<Rightarrow> (False, s1)
                       | ch # cs \<Rightarrow> if ch = CHR ''-'' then (True, cs)
                                   else if ch = CHR ''+'' then (False, cs)
                                   else (False, s1));
          ds = takeWhile isdigit s2
      in if ds = [] then Inl invalid_argument
         else let v = (if neg then - int (digits_value 0 ds) else int (digits_value 0 ds))
              in if v < - 2147483648 \<or> v > 2147483647 then Inl out_of_range else Inr v)"

text \<open>
  The body of the two loops of \<^verbatim>\<open>SettingManager::read\<close> (lines 109 to 120 and 122 to 133).
  \<open>sec\<close> is one section of the parsed file: the value stored for a key, empty when the
  key is absent (the INI reader is not part of the source). The settings are changed in
  place, so what an exception of \<^verbatim>\<open>std::stoi\<close> leaves behind is returned with it.
\<close>

fun read_section ::
  "(string \<Rightarrow> string) \<Rightarrow> jg_setting_t list \<Rightarrow> jg_setting_t list \<times> stoi_error option" where
  "read_section sec [] = ([], None)"
| "read_section sec (setting # rest) =
     (let strval = sec (name setting)
      in if strval = [] then (let (rest', e) = read_section sec rest in (setting # rest', e))
         else case stoi strval of
                Inl e \<Rightarrow> (setting # rest, Some e)
              | Inr v \<Rightarrow>
                  let setting' = (if v \<ge> min_val setting \<and> v \<le> max_val setting
                                  then setting\<lparr>val := v\<rparr> else setting);
                      (rest', e) = read_section sec rest
                  in (setting' # rest', e))"

text \<open>
  The settings of the frontend and those of the emulator core that
  \<^verbatim>\<open>jgm.get_settings()\<close> returns; \<^verbatim>\<open>jgm.rehash()\<close> and the input configuration that follow the
  loops are not modelled.
\<close>

record manager_state =
  settings :: "jg_setting_t list"
  core_settings :: "jg_setting_t list"

definition SettingManager_read ::
  "(string \<Rightarrow> string \<Rightarrow> string) \<Rightarrow> manager_state \<Rightarrow> manager_state \<times> stoi_error option" where
  "SettingManager_read ini st =
     (let (fs, e) = read_section (ini ''frontend'') (settings st)
      in case e of
           Some x \<Rightarrow> (st\<lparr>settings := fs\<rparr>, Some x)
         | None \<Rightarrow>
             let (cs, e') = read_section (ini ''nestopia'') (core_settings st)
             in (st\<lparr>settings := fs, core_settings := cs\<rparr>, e'))"

text \<open>
  A setting is within its declared range; and what \<open>read\<close> may do to one setting: nothing
  but its value changes, and the value changes only to the integer parsed from a
  non-empty entry that lies within the range.
\<close>

definition in_bounds :: "jg_setting_t \<Rightarrow> bool" where
  "in_bounds s = (min_val s \<le> val s \<and> val s \<le> max_val s)"

definition assigned_ok :: "(string \<Rightarrow> string) \<Rightarrow> jg_setting_t \<Rightarrow> jg_setting_t \<Rightarrow> bool" where
  "assigned_ok sec s s' =
     (name s' = name s \<and> min_val s' = min_val s \<and> max_val s' = max_val s \<and>
      (val s' = val s \<or>
       (sec (name s) \<noteq> [] \<and> stoi (sec (name s)) = Inr (val s') \<and>
        min_val s \<le> val s' \<and> val s' \<le> max_val s)))"

text \<open>A configuration with one entry within its range and one outside.\<close>

definition ini_example :: "string \<Rightarrow> string \<Rightarrow> string" where
  "ini_example section key =
     (if section = ''frontend'' \<and> key = ''v_scale'' then ''4''
      else if section = ''frontend'' \<and> key = ''v_aspect'' then ''7''
      else [])"

section \<open>Binary32 arithmetic\<close>

text \<open>
  The GLSL type \<^verbatim>\<open>float\<close> is the IEEE 754 binary32 format: an operation returns its exact
  result rounded to the nearest representable number, a tie going to the even
  significand. \<open>f32 x\<close> is that rounding of the real number \<open>x\<close>: the significand has 24
  bits, the unit in the last place of \<open>x\<close> is \<open>2\<close> to the power \<open>f32_exp x\<close>, and below
  \<open>2\<close> to the power \<open>-126\<close> the spacing stays that of the subnormal numbers. The exponent
  is not bounded above: infinities and NaN are not modelled, so the statements are about
  runs of the shader in which no operation overflows.
\<close>

definition round_even :: "real \<Rightarrow> int" where
  "round_even x =
     (let n = \<lfloor>x\<rfloor>; r = x - of_int n
      in if r < 1 / 2 then n else if r > 1 / 2 then n + 1 else if even n then n else n + 1)"

definition f32_exp :: "real \<Rightarrow> int" where
  "f32_exp x = max \<lfloor>log 2 (abs x)\<rfloor> (- 126) - 23"

definition f32 :: "real \<Rightarrow> real" where
  "f32 x =
     (if x = 0 then 0
      else of_int (round_even (x / 2 powr of_int (f32_exp x))) * 2 powr of_int (f32_exp x))"


text \<open>The correctly rounded operations \<^verbatim>\<open>+\<close>, \<^verbatim>\<open>-\<close>, \<^verbatim>\<open>*\<close>, \<^verbatim>\<open>/\<close> and \<^verbatim>\<open>sqrt\<close>.\<close>

definition fadd :: "real \<Rightarrow> real \<Rightarrow> real" where
  "fadd x y = f32 (x + y)"

definition fsub :: "real \<Rightarrow> real \<Rightarrow> real" where
  "fsub x y = f32 (x - y)"

definition fmul :: "real \<Rightarrow> real \<Rightarrow> real" where
  "fmul x y = f32 (x * y)"

definition fdiv :: "real \<Rightarrow> real \<Rightarrow> real" where
  "fdiv x y = f32 (x / y)"

definition fsqrt :: "real \<Rightarrow> real" where
  "fsqrt x = f32 (sqrt x)"

section \<open>The shader in binary32\<close>

text \<open>
  The functions of the shader once more, line by line as above, with every arithmetic
  operation of the source replaced by the rounded one, in the order in which the source
  evaluates it (\<^verbatim>\<open>mix(x, y, a)\<close> is \<^verbatim>\<open>x * (1 - a) + y * a\<close> with four roundings per
  channel, \<^verbatim>\<open>length\<close> rounds the two squares, their sum and the root, \<^verbatim>\<open>fract(x)\<close> is
  \<^verbatim>\<open>x - floor(x)\<close>). Comparisons, negation and \<^verbatim>\<open>floor\<close> are exact; the literals
  \<^verbatim>\<open>0.027\<close> and \<^verbatim>\<open>0.031\<close> are rounded, all others are representable. The sampler
  \<open>texture\<close>, \<open>mark\<close>, \<open>P\<close> and \<open>bias_loop\<close> are those of the first model. The centre of
  the output pixel \<open>(i, j)\<close> is the rounded \<open>(i + 0.5) / tw\<close>, \<open>(j + 0.5) / th\<close>.
\<close>

fun vadd32 :: "vec4 \<Rightarrow> vec4 \<Rightarrow> vec4" where
  "vadd32 (Vec4 r1 g1 b1 a1) (Vec4 r2 g2 b2 a2) =
     Vec4 (fadd r1 r2) (fadd g1 g2) (fadd b1 b2) (fadd a1 a2)"

fun vscale32 :: "vec4 \<Rightarrow> real \<Rightarrow> vec4" where
  "vscale32 (Vec4 r1 g1 b1 a1) s = Vec4 (fmul r1 s) (fmul g1 s) (fmul b1 s) (fmul a1 s)"

fun vdiv32 :: "vec4 \<Rightarrow> real \<Rightarrow> vec4" where
  "vdiv32 (Vec4 r1 g1 b1 a1) s = Vec4 (fdiv r1 s) (fdiv g1 s) (fdiv b1 s) (fdiv a1 s)"

definition mix32 :: "vec4 \<Rightarrow> vec4 \<Rightarrow> real \<Rightarrow> vec4" where
  "mix32 x y t = vadd32 (vscale32 x (fsub 1 t)) (vscale32 y t)"

fun vadd2_32 :: "vec2 \<Rightarrow> vec2 \<Rightarrow> vec2" where
  "vadd2_32 (Vec2 a1 b1) (Vec2 a2 b2) = Vec2 (fadd a1 a2) (fadd b1 b2)"

definition length32 :: "vec2 \<Rightarrow> real" where
  "length32 v = fsqrt (fadd (fmul (vx v) (vx v)) (fmul (vy v) (vy v)))"

definition rgb_to_hq_colospace32 :: "vec4 \<Rightarrow> vec3" where
  "rgb_to_hq_colospace32 rgb =
     Vec3 (fadd (fadd (fmul 0.250 (red rgb)) (fmul 0.250 (green rgb))) (fmul 0.250 (blue rgb)))
          (fsub (fsub (fmul 0.250 (red rgb)) (fmul 0.000 (green rgb))) (fmul 0.250 (blue rgb)))
          (fsub (fadd (fmul (- 0.125) (red rgb)) (fmul 0.250 (green rgb)))
                (fmul 0.125 (blue rgb)))"

definition is_different32 :: "vec4 \<Rightarrow> vec4 \<Rightarrow> bool" where
  "is_different32 a b =
     (let ha = rgb_to_hq_colospace32 a; hb = rgb_to_hq_colospace32 b;
          diff = Vec3 (abs (fsub (hx ha) (hx hb))) (abs (fsub (hy ha) (hy hb)))
                      (abs (fsub (hz ha) (hz hb)))
      in hx diff > 0.125 \<or> hy diff > f32 0.027 \<or> hz diff > f32 0.031)"

definition pixel_offset32 :: "vec2 \<Rightarrow> vec2" where
  "pixel_offset32 textureDimensions =
     Vec2 (fdiv 1.0 (vx textureDimensions)) (fdiv 1.0 (vy textureDimensions))"

definition fract32 :: "real \<Rightarrow> real" where
  "fract32 x = fsub x (of_int \<lfloor>x\<rfloor>)"

definition fract_pos32 :: "vec2 \<Rightarrow> vec2 \<Rightarrow> vec2" where
  "fract_pos32 textureDimensions texCoord =
     Vec2 (fract32 (fmul (vx texCoord) (vx textureDimensions)))
          (fract32 (fmul (vy texCoord) (vy textureDimensions)))"

definition flip_quadrant32 :: "vec2 \<Rightarrow> vec2 \<Rightarrow> vec2 \<times> vec2" where
  "flip_quadrant32 ofs p =
     (let (ofs, p) =
            (if vx p > 0.5 then (Vec2 (- vx ofs) (vy ofs), Vec2 (fsub 1.0 (vx p)) (vy p))
             else (ofs, p));
          (ofs, p) =
            (if vy p > 0.5 then (Vec2 (vx ofs) (- vy ofs), Vec2 (vx p) (fsub 1.0 (vy p)))
             else (ofs, p))
      in (ofs, p))"

definition base_pattern32 ::
  "vec4 \<Rightarrow> vec4 \<Rightarrow> vec4 \<Rightarrow> vec4 \<Rightarrow> vec4 \<Rightarrow> vec4 \<Rightarrow> vec4 \<Rightarrow> vec4 \<Rightarrow> vec4 \<Rightarrow> nat" where
  "base_pattern32 w0 w1 w2 w3 w4 w5 w6 w7 w8 =
     (let pattern = 0;
          pattern = mark (is_different32 w0 w4) 0 pattern;
          pattern = mark (is_different32 w1 w4) 1 pattern;
          pattern = mark (is_different32 w2 w4) 2 pattern;
          pattern = mark (is_different32 w3 w4) 3 pattern;
          pattern = mark (is_different32 w5 w4) 4 pattern;
          pattern = mark (is_different32 w6 w4) 5 pattern;
          pattern = mark (is_different32 w7 w4) 6 pattern;
          pattern = mark (is_different32 w8 w4) 7 pattern
      in pattern)"

definition extended_pattern32 ::
  "nat \<Rightarrow> vec4 \<Rightarrow> vec4 \<Rightarrow> vec4 \<Rightarrow> vec4 \<Rightarrow> vec4 \<Rightarrow> vec4 \<Rightarrow> vec4 \<Rightarrow> vec4 \<Rightarrow> nat" where
  "extended_pattern32 pattern x0 x1 x2 x3 x4 x5 x6 w4 =
     (let pattern = mark (is_different32 x0 w4) 8 pattern;
          pattern = mark (is_different32 x1 w4) 9 pattern;
          pattern = mark (is_different32 x2 w4) 10 pattern;
          pattern = mark (is_different32 x3 w4) 11 pattern;
          pattern = mark (is_different32 x4 w4) 12 pattern;
          pattern = mark (is_different32 x5 w4) 13 pattern;
          pattern = mark (is_different32 x6 w4) 14 pattern
      in pattern)"

definition pixel_len32 :: "vec2 \<Rightarrow> vec2 \<Rightarrow> real" where
  "pixel_len32 textureDimensions uResolution =
     length32 (Vec2 (fdiv 1.0 (fdiv (vx uResolution) (vx textureDimensions)))
                    (fdiv 1.0 (fdiv (vy uResolution) (vy textureDimensions))))"

definition corner_r32 :: "vec4 \<Rightarrow> vec4 \<Rightarrow> vec4 \<Rightarrow> vec2 \<Rightarrow> vec4" where
  "corner_r32 w0 w1 w3 p =
     (if is_different32 w0 w1 \<or> is_different32 w0 w3
      then mix32 w1 w3 (fadd (fsub (vy p) (vx p)) 0.5)
      else mix32 (mix32 (vadd32 (vadd32 (vscale32 w1 0.375) (vscale32 w0 0.25))
                                (vscale32 w3 0.375))
                        w3 (fmul (vy p) 2.0))
                 w1 (fmul (vx p) 2.0))"

definition rule_circle32 :: "vec2 \<Rightarrow> vec2 \<Rightarrow> vec2 \<Rightarrow> vec4 \<Rightarrow> vec4 \<Rightarrow> vec4 \<Rightarrow> vec4 \<Rightarrow> vec4" where
  "rule_circle32 textureDimensions uResolution p w0 w1 w3 w4 =
     (let dist = length32 (Vec2 (fsub (vx p) 0.5) (fsub (vy p) 0.5));
          pixel_size = pixel_len32 textureDimensions uResolution
      in if dist < fsub 0.5 (fdiv pixel_size 2.0) then w4
         else let r = corner_r32 w0 w1 w3 p
              in if dist > fadd 0.5 (fdiv pixel_size 2.0) then r
                 else mix32 w4 r (fdiv (fadd (fsub dist 0.5) (fdiv pixel_size 2.0)) pixel_size))"

definition rule_slope_x32 :: "vec2 \<Rightarrow> vec2 \<Rightarrow> vec2 \<Rightarrow> vec4 \<Rightarrow> vec4 \<Rightarrow> vec4 \<Rightarrow> vec4" where
  "rule_slope_x32 textureDimensions uResolution p w1 w3 w4 =
     (let dist = fsub (vx p) (fmul 2.0 (vy p));
          pixel_size = fmul (pixel_len32 textureDimensions uResolution) (fsqrt 5.0)
      in if dist > fdiv pixel_size 2.0 then w1
         else let r = mix32 w3 w4 (fadd (vx p) 0.5)
              in if dist < fdiv (- pixel_size) 2.0 then r
                 else mix32 r w1 (fdiv (fadd dist (fdiv pixel_size 2.0)) pixel_size))"

definition rule_slope_y32 :: "vec2 \<Rightarrow> vec2 \<Rightarrow> vec2 \<Rightarrow> vec4 \<Rightarrow> vec4 \<Rightarrow> vec4 \<Rightarrow> vec4" where
  "rule_slope_y32 textureDimensions uResolution p w1 w3 w4 =
     (let dist = fsub (vy p) (fmul 2.0 (vx p));
          pixel_size = fmul (pixel_len32 textureDimensions uResolution) (fsqrt 5.0)
      in if fsub (vy p) (fmul 2.0 (vx p)) > fdiv pixel_size 2.0 then w3
         else let r = mix32 w1 w4 (fadd (vx p) 0.5)
              in if dist < fdiv (- pixel_size) 2.0 then r
                 else mix32 r w3 (fdiv (fadd dist (fdiv pixel_size 2.0)) pixel_size))"

definition rule_far_x32 :: "vec2 \<Rightarrow> vec2 \<Rightarrow> vec2 \<Rightarrow> vec4 \<Rightarrow> vec4 \<Rightarrow> vec4 \<Rightarrow> vec4 \<Rightarrow> vec4" where
  "rule_far_x32 textureDimensions uResolution p w0 w1 w3 w4 =
     (let dist = fadd (vx p) (fmul 2.0 (vy p));
          pixel_size = fmul (pixel_len32 textureDimensions uResolution) (fsqrt 5.0)
      in if dist > fadd 1.0 (fdiv pixel_size 2.0) then w4
         else let r = corner_r32 w0 w1 w3 p
              in if dist < fsub 1.0 (fdiv pixel_size 2.0) then r
                 else mix32 r w4
                        (fdiv (fsub (fadd dist (fdiv pixel_size 2.0)) 1.0) pixel_size))"

definition rule_far_y32 :: "vec2 \<Rightarrow> vec2 \<Rightarrow> vec2 \<Rightarrow> vec4 \<Rightarrow> vec4 \<Rightarrow> vec4 \<Rightarrow> vec4 \<Rightarrow> vec4" where
  "rule_far_y32 textureDimensions uResolution p w0 w1 w3 w4 =
     (let dist = fadd (vy p) (fmul 2.0 (vx p));
          pixel_size = fmul (pixel_len32 textureDimensions uResolution) (fsqrt 5.0)
      in if fadd (vy p) (fmul 2.0 (vx p)) > fadd 1.0 (fdiv pixel_size 2.0) then w4
         else let r = corner_r32 w0 w1 w3 p
              in if dist < fsub 1.0 (fdiv pixel_size 2.0) then r
                 else mix32 r w4
                        (fdiv (fsub (fadd dist (fdiv pixel_size 2.0)) 1.0) pixel_size))"

definition rule_diag32 :: "vec2 \<Rightarrow> vec2 \<Rightarrow> vec2 \<Rightarrow> vec4 \<Rightarrow> vec4 \<Rightarrow> vec4 \<Rightarrow> vec4 \<Rightarrow> vec4" where
  "rule_diag32 textureDimensions uResolution p w0 w1 w3 w4 =
     (let dist = fadd (vx p) (vy p);
          pixel_size = pixel_len32 textureDimensions uResolution
      in if dist > fadd 0.5 (fdiv pixel_size 2.0) then w4
         else let r = corner_r32 w0 w1 w3 p
              in if dist < fsub 0.5 (fdiv pixel_size 2.0) then r
                 else mix32 r w4
                        (fdiv (fsub (fadd dist (fdiv pixel_size 2.0)) 0.5) pixel_size))"

definition ring_bias32 :: "image \<Rightarrow> vec2 \<Rightarrow> vec2 \<Rightarrow> nat \<Rightarrow> vec4 \<Rightarrow> int" where
  "ring_bias32 img texCoord ofs pattern w4 =
     (let x0 = texture img (vadd2_32 texCoord
                 (Vec2 (fmul (- vx ofs) 2.0) (fmul (- vy ofs) 2.0)));
          x1 = texture img (vadd2_32 texCoord (Vec2 (- vx ofs) (fmul (- vy ofs) 2.0)));
          x2 = texture img (vadd2_32 texCoord (Vec2 0.0 (fmul (- vy ofs) 2.0)));
          x3 = texture img (vadd2_32 texCoord (Vec2 (vx ofs) (fmul (- vy ofs) 2.0)));
          x4 = texture img (vadd2_32 texCoord (Vec2 (fmul (- vx ofs) 2.0) (- vy ofs)));
          x5 = texture img (vadd2_32 texCoord (Vec2 (fmul (- vx ofs) 2.0) 0.0));
          x6 = texture img (vadd2_32 texCoord (Vec2 (fmul (- vx ofs) 2.0) (vy ofs)));
          pattern = extended_pattern32 pattern x0 x1 x2 x3 x4 x5 x6 w4;
          diagonal_bias = bias_loop (- 7) pattern
      in diagonal_bias)"

definition disambiguate32 ::
  "vec2 \<Rightarrow> vec2 \<Rightarrow> image \<Rightarrow> vec2 \<Rightarrow> vec2 \<Rightarrow> vec2 \<Rightarrow> nat \<Rightarrow> vec4 \<Rightarrow> vec4 \<Rightarrow> vec4 \<Rightarrow> vec4" where
  "disambiguate32 textureDimensions uResolution img texCoord ofs p pattern w1 w3 w4 =
     (let dist = fadd (vx p) (vy p);
          pixel_size = pixel_len32 textureDimensions uResolution
      in if dist > fadd 0.5 (fdiv pixel_size 2.0) then w4
         else let diagonal_bias = ring_bias32 img texCoord ofs pattern w4
              in if diagonal_bias \<le> 0
                 then let r = mix32 w1 w3 (fadd (fsub (vy p) (vx p)) 0.5)
                      in if dist < fsub 0.5 (fdiv pixel_size 2.0) then r
                         else mix32 r w4
                                (fdiv (fsub (fadd dist (fdiv pixel_size 2.0)) 0.5) pixel_size)
                 else w4)"

definition rules32 ::
  "vec2 \<Rightarrow> vec2 \<Rightarrow> image \<Rightarrow> vec2 \<Rightarrow> vec2 \<Rightarrow> vec2 \<Rightarrow> nat \<Rightarrow>
   vec4 \<Rightarrow> vec4 \<Rightarrow> vec4 \<Rightarrow> vec4 \<Rightarrow> vec4 \<Rightarrow> vec4 \<Rightarrow> vec4" where
  "rules32 textureDimensions uResolution img texCoord ofs p pattern w0 w1 w3 w4 w5 w7 =
     (if (P pattern 0xbf 0x37 \<or> P pattern 0xdb 0x13) \<and> is_different32 w1 w5
      then mix32 w4 w3 (fsub 0.5 (vx p))
      else if (P pattern 0xdb 0x49 \<or> P pattern 0xef 0x6d) \<and> is_different32 w7 w3
      then mix32 w4 w1 (fsub 0.5 (vy p))
      else if (P pattern 0x0b 0x0b \<or> P pattern 0xfe 0x4a \<or> P pattern 0xfe 0x1a)
              \<and> is_different32 w3 w1
      then w4
      else if (P pattern 0x6f 0x2a \<or> P pattern 0x5b 0x0a \<or> P pattern 0xbf 0x3a \<or>
               P pattern 0xdf 0x5a \<or> P pattern 0x9f 0x8a \<or> P pattern 0xcf 0x8a \<or>
               P pattern 0xef 0x4e \<or> P pattern 0x3f 0x0e \<or> P pattern 0xfb 0x5a \<or>
               P pattern 0xbb 0x8a \<or> P pattern 0x7f 0x5a \<or> P pattern 0xaf 0x8a \<or>
               P pattern 0xeb 0x8a) \<and> is_different32 w3 w1
      then mix32 w4 (mix32 w4 w0 (fsub 0.5 (vx p))) (fsub 0.5 (vy p))
      else if P pattern 0x0b 0x08
      then mix32 (mix32 (vadd32 (vadd32 (vscale32 w0 0.375) (vscale32 w1 0.25))
                                (vscale32 w4 0.375))
                        (vadd32 (vscale32 w4 0.5) (vscale32 w1 0.5)) (fmul (vx p) 2.0))
                 w4 (fmul (vy p) 2.0)
      else if P pattern 0x0b 0x02
      then mix32 (mix32 (vadd32 (vadd32 (vscale32 w0 0.375) (vscale32 w3 0.25))
                                (vscale32 w4 0.375))
                        (vadd32 (vscale32 w4 0.5) (vscale32 w3 0.5)) (fmul (vy p) 2.0))
                 w4 (fmul (vx p) 2.0)
      else if P pattern 0x2f 0x2f
      then rule_circle32 textureDimensions uResolution p w0 w1 w3 w4
      else if P pattern 0xbf 0x37 \<or> P pattern 0xdb 0x13
      then rule_slope_x32 textureDimensions uResolution p w1 w3 w4
      else if P pattern 0xdb 0x49 \<or> P pattern 0xef 0x6d
      then rule_slope_y32 textureDimensions uResolution p w1 w3 w4
      else if P pattern 0xbf 0x8f \<or> P pattern 0x7e 0x0e
      then rule_far_x32 textureDimensions uResolution p w0 w1 w3 w4
      else if P pattern 0x7e 0x2a \<or> P pattern 0xef 0xab
      then rule_far_y32 textureDimensions uResolution p w0 w1 w3 w4
      else if P pattern 0x1b 0x03 \<or> P pattern 0x4f 0x43 \<or> P pattern 0x8b 0x83 \<or>
              P pattern 0x6b 0x43
      then mix32 w4 w3 (fsub 0.5 (vx p))
      else if P pattern 0x4b 0x09 \<or> P pattern 0x8b 0x89 \<or> P pattern 0x1f 0x19 \<or>
              P pattern 0x3b 0x19
      then mix32 w4 w1 (fsub 0.5 (vy p))
      else if P pattern 0xfb 0x6a \<or> P pattern 0x6f 0x6e \<or> P pattern 0x3f 0x3e \<or>
              P pattern 0xfb 0xfa \<or> P pattern 0xdf 0xde \<or> P pattern 0xdf 0x1e
      then mix32 w4 w0 (fdiv (fsub (fsub 1.0 (vx p)) (vy p)) 2.0)
      else if P pattern 0x4f 0x4b \<or> P pattern 0x9f 0x1b \<or> P pattern 0x2f 0x0b \<or>
              P pattern 0xbe 0x0a \<or> P pattern 0xee 0x0a \<or> P pattern 0x7e 0x0a \<or>
              P pattern 0xeb 0x4b \<or> P pattern 0x3b 0x1b
      then rule_diag32 textureDimensions uResolution p w0 w1 w3 w4
      else if P pattern 0x0b 0x01
      then mix32 (mix32 w4 w3 (fsub 0.5 (vx p)))
                 (mix32 w1 (vdiv32 (vadd32 w1 w3) 2.0) (fsub 0.5 (vx p)))
                 (fsub 0.5 (vy p))
      else if P pattern 0x0b 0x00
      then mix32 (mix32 w4 w3 (fsub 0.5 (vx p))) (mix32 w1 w0 (fsub 0.5 (vx p)))
                 (fsub 0.5 (vy p))
      else disambiguate32 textureDimensions uResolution img texCoord ofs p pattern w1 w3 w4)"

definition scale32 :: "vec2 \<Rightarrow> vec2 \<Rightarrow> image \<Rightarrow> vec2 \<Rightarrow> vec4" where
  "scale32 textureDimensions uResolution img coord =
     (let ofs = pixel_offset32 textureDimensions;
          texCoord = coord;
          p = fract_pos32 textureDimensions texCoord;
          (ofs, p) = flip_quadrant32 ofs p;
          w0 = texture img (vadd2_32 texCoord (Vec2 (- vx ofs) (- vy ofs)));
          w1 = texture img (vadd2_32 texCoord (Vec2 0 (- vy ofs)));
          w2 = texture img (vadd2_32 texCoord (Vec2 (vx ofs) (- vy ofs)));
          w3 = texture img (vadd2_32 texCoord (Vec2 (- vx ofs) 0));
          w4 = texture img (vadd2_32 texCoord (Vec2 0 0));
          w5 = texture img (vadd2_32 texCoord (Vec2 (vx ofs) 0));
          w6 = texture img (vadd2_32 texCoord (Vec2 (- vx ofs) (vy ofs)));
          w7 = texture img (vadd2_32 texCoord (Vec2 0 (vy ofs)));
          w8 = texture img (vadd2_32 texCoord (Vec2 (vx ofs) (vy ofs)));
          pattern = base_pattern32 w0 w1 w2 w3 w4 w5 w6 w7 w8
      in rules32 textureDimensions uResolution img texCoord ofs p pattern w0 w1 w3 w4 w5 w7)"

definition pixel_coord32 :: "nat \<Rightarrow> nat \<Rightarrow> nat \<Rightarrow> nat \<Rightarrow> vec2" where
  "pixel_coord32 tw th i j =
     Vec2 (fdiv (fadd (real i) 0.5) (real tw)) (fdiv (fadd (real j) 0.5) (real th))"

section \<open>The classifier in the words of the specification, in binary32\<close>

text \<open>
  The three axes of the perceptual space, computed in binary32, and the thresholds the
  shader compares with: \<open>0.125\<close>, and the binary32 numbers nearest to \<open>0.027\<close> and \<open>0.031\<close>,
  which are \<^verbatim>\<open>0x1.ba5e36p-6\<close> (above \<open>0.027\<close>) and \<^verbatim>\<open>0x1.fbe76cp-6\<close> (below \<open>0.031\<close>).
\<close>

definition hq_axis32 :: "nat \<Rightarrow> vec4 \<Rightarrow> real" where
  "hq_axis32 i c =
     (if i = 0 then fadd (fadd (fmul 0.25 (red c)) (fmul 0.25 (green c))) (fmul 0.25 (blue c))
      else if i = 1 then fsub (fmul 0.25 (red c)) (fmul 0.25 (blue c))
      else fsub (fadd (fmul (- 0.125) (red c)) (fmul 0.25 (green c))) (fmul 0.125 (blue c)))"

definition hq_threshold32 :: "nat \<Rightarrow> real" where
  "hq_threshold32 i =
     (if i = 0 then 1 / 8 else if i = 1 then 14495515 / 2 ^ 29 else 8321499 / 2 ^ 28)"

definition is_different_spec32 :: "vec4 \<Rightarrow> vec4 \<Rightarrow> bool" where
  "is_different_spec32 a b =
     list_ex (\<lambda>i. abs (fsub (hq_axis32 i a) (hq_axis32 i b)) > hq_threshold32 i) [0, 1, 2]"

section \<open>Colours up to rounding\<close>

text \<open>
  A colour whose four channels lie between 0 and 1, and two colours that differ by at
  most \<open>e\<close> in every channel.
\<close>

definition unit_colour :: "vec4 \<Rightarrow> bool" where
  "unit_colour c =
     (0 \<le> red c \<and> red c \<le> 1 \<and> 0 \<le> green c \<and> green c \<le> 1 \<and>
      0 \<le> blue c \<and> blue c \<le> 1 \<and> 0 \<le> alpha c \<and> alpha c \<le> 1)"

definition close_to :: "real \<Rightarrow> vec4 \<Rightarrow> vec4 \<Rightarrow> bool" where
  "close_to e a b =
     (abs (red a - red b) \<le> e \<and> abs (green a - green b) \<le> e \<and>
      abs (blue a - blue b) \<le> e \<and> abs (alpha a - alpha b) \<le> e)"

text \<open>
  Colours and a fractional position used in the examples: black, white, the greys 51/255
  and 7/255 as binary32 numbers (\<^verbatim>\<open>0x1.99999ap-3\<close> and \<^verbatim>\<open>0x1.c1c1c2p-6\<close>), and the
  position \<open>(0.5, 0x1.6a09e8p-3)\<close>.
\<close>

abbreviation black :: vec4 where
  "black \<equiv> Vec4 0 0 0 1"


abbreviation grey_51 :: vec4 where
  "grey_51 \<equiv> Vec4 (13421773 / 67108864) (13421773 / 67108864) (13421773 / 67108864) 1"



text \<open>
  The centre sample of the binary32 shader (line 84), and the eight neighbours the
  sampler gathers around a coordinate (lines 80 to 88, whichever way the offsets are
  flipped) all being equal to it.
\<close>

definition centre32 :: "image \<Rightarrow> vec2 \<Rightarrow> vec4" where
  "centre32 img coord = texture img (vadd2_32 coord (Vec2 0 0))"

definition neighbours_equal32 :: "vec2 \<Rightarrow> image \<Rightarrow> vec2 \<Rightarrow> bool" where
  "neighbours_equal32 textureDimensions img coord =
     list_all (\<lambda>(dx, dy).
         texture img (vadd2_32 coord (Vec2 (dx * vx (pixel_offset32 textureDimensions))
                                           (dy * vy (pixel_offset32 textureDimensions))))
           = centre32 img coord)
       [(- 1, - 1), (0, - 1), (1, - 1), (- 1, 0), (1, 0), (- 1, 1), (0, 1), (1, 1)]"



section \<open>Theorems\<close>


lemma is_different_refl: "\<not> is_different c c"
  by (simp add: is_different_def Let_def)

subsection \<open>Bits of the pattern\<close>

lemma not_bit_ge8: "m < 256 \<Longrightarrow> 8 \<le> n \<Longrightarrow> \<not> bit (m::nat) n"
proof -
  assume a: "m < 256" and b: "8 \<le> n"
  have "(2::nat) ^ 8 \<le> 2 ^ n" using b by (rule power_increasing) simp
  then have "m < 2 ^ n" using a by simp
  then show ?thesis by (simp add: bit_iff_odd)
qed

lemma lt8_cases: "n < 8 \<Longrightarrow> n \<in> {0, 1, 2, 3, 4, 5, 6, 7::nat}"
  unfolding insert_iff empty_iff by arith

lemma P_bits:
  assumes "m < 256" "r < 256"
  shows "P pattern m r =
    ((bit m 0 \<and> bit pattern 0) = bit r 0 \<and> (bit m 1 \<and> bit pattern 1) = bit r 1 \<and>
     (bit m 2 \<and> bit pattern 2) = bit r 2 \<and> (bit m 3 \<and> bit pattern 3) = bit r 3 \<and>
     (bit m 4 \<and> bit pattern 4) = bit r 4 \<and> (bit m 5 \<and> bit pattern 5) = bit r 5 \<and>
     (bit m 6 \<and> bit pattern 6) = bit r 6 \<and> (bit m 7 \<and> bit pattern 7) = bit r 7)"
    (is "_ = ?R")
proof
  assume "P pattern m r"
  then have "\<And>n. bit (and pattern m) n = bit r n" by (simp add: P_def)
  then have "\<And>n. (bit m n \<and> bit pattern n) = bit r n" by (auto simp: bit_and_iff)
  then show ?R by blast
next
  assume R: ?R
  have "bit (and pattern m) n = bit r n" for n
  proof (cases "n < 8")
    case True
    from lt8_cases [OF True] R show ?thesis by (auto simp: bit_and_iff)
  next
    case False
    then have "8 \<le> n" by simp
    then show ?thesis using assms by (simp add: bit_and_iff not_bit_ge8)
  qed
  then show "P pattern m r" by (simp add: P_def bit_eq_iff)
qed

lemma base_pattern_all:
  "is_different w0 w4 \<Longrightarrow> is_different w1 w4 \<Longrightarrow> is_different w2 w4 \<Longrightarrow> is_different w3 w4 \<Longrightarrow>
   is_different w5 w4 \<Longrightarrow> is_different w6 w4 \<Longrightarrow> is_different w7 w4 \<Longrightarrow> is_different w8 w4 \<Longrightarrow>
   base_pattern w0 w1 w2 w3 w4 w5 w6 w7 w8 = 255"
  by (simp add: base_pattern_def mark_def)

lemma rules_255:
  "rules s t img c ofs p 255 w0 w1 w3 w4 w5 w7 =
     (if is_different w3 w1 then w4 else rule_circle s t p w0 w1 w3 w4)"
  by (simp add: rules_def P_def)

lemma rules_slope_x:
  assumes "P pattern 0xbf 0x37 \<or> P pattern 0xdb 0x13"
  shows "rules s t img c ofs p pattern w0 w1 w3 w4 w5 w7 =
     (if is_different w1 w5 then mix w4 w3 (0.5 - vx p) else rule_slope_x s t p w1 w3 w4)"
proof -
  have b: "\<not> bit pattern 3" "bit pattern 0" "bit pattern 1" "bit pattern 4"
    using assms by (auto simp: P_bits bit_Suc_0_iff)
  show ?thesis using assms by (simp add: rules_def P_bits b bit_Suc_0_iff)
qed

lemma sqrt_eqI: "y * y = x \<Longrightarrow> 0 \<le> y \<Longrightarrow> sqrt x = (y::real)"
  by (rule real_sqrt_unique) (simp add: power2_eq_square)

lemma texture_uniform: "texture (uniform_image w h c) v = c"
  by (simp add: texture_def uniform_image_def)

lemma flip_quadrant_eq:
  "flip_quadrant ofs p =
     (Vec2 (if vx p > 0.5 then - vx ofs else vx ofs) (if vy p > 0.5 then - vy ofs else vy ofs),
      Vec2 (if vx p > 0.5 then 1 - vx p else vx p) (if vy p > 0.5 then 1 - vy p else vy p))"
  by (cases ofs; cases p) (simp add: flip_quadrant_def)

subsection \<open>Quadrant normalisation\<close>

text \<open>
  C5. For every source coordinate, after quadrant normalisation both components of the
  fractional position \<open>p\<close> lie in the closed interval from 0 to 0.5: where the raw
  component exceeds 0.5 the sign of the offset is flipped and the component becomes 1
  minus itself, and otherwise both are left as they are.
\<close>

theorem quadrant_normalization:
  "(let ofs = pixel_offset s; p = fract_pos s coord; (ofs', p') = flip_quadrant ofs p
    in 0 \<le> vx p' \<and> vx p' \<le> 0.5 \<and> 0 \<le> vy p' \<and> vy p' \<le> 0.5 \<and>
       vx ofs' = (if vx p > 0.5 then - vx ofs else vx ofs) \<and>
       vx p' = (if vx p > 0.5 then 1 - vx p else vx p) \<and>
       vy ofs' = (if vy p > 0.5 then - vy ofs else vy ofs) \<and>
       vy p' = (if vy p > 0.5 then 1 - vy p else vy p))"
proof -
  have "0 \<le> frac (vx coord * vx s)" "frac (vx coord * vx s) < 1"
       "0 \<le> frac (vy coord * vy s)" "frac (vy coord * vy s) < 1"
    by (simp_all add: frac_lt_1)
  then show ?thesis
    by (simp add: Let_def flip_quadrant_eq fract_pos_def)
qed

subsection \<open>First match and the fully different neighbourhood\<close>

lemma tex_dot:
  "texture dot_image (Vec2 u v) =
     (if \<lfloor>u * 5\<rfloor> = 2 \<and> \<lfloor>v * 5\<rfloor> = 2 then Vec4 1 1 1 1 else Vec4 0 0 0 1)"
  by (auto simp: texture_def dot_image_def clamp_index_def)

text \<open>
  C6. For every pattern with \<^verbatim>\<open>(pattern & 0xbf) == 0x37\<close> or \<^verbatim>\<open>(pattern & 0xdb) == 0x13\<close>:
  if \<open>is_different w1 w5\<close> holds the result is the axis-aligned blend
  \<open>mix w4 w3 (0.5 - p.x)\<close> of the first rule, and the later distance-based rule of the
  same two predicates (lines 134 to 145) is what is applied when that test fails.
\<close>

theorem first_match_slope_x:
  "P pattern 0xbf 0x37 \<or> P pattern 0xdb 0x13 \<Longrightarrow>
   rules s t img c ofs p pattern w0 w1 w3 w4 w5 w7 =
     (if is_different w1 w5 then mix w4 w3 (0.5 - vx p) else rule_slope_x s t p w1 w3 w4)"
  by (rule rules_slope_x)

theorem first_match_slope_x_witness:
  "P 0x37 0xbf 0x37 \<and> is_different (Vec4 0 0 0 1) (Vec4 1 1 1 1) \<and>
   rules (Vec2 5 5) (Vec2 20 15) dot_image (Vec2 (1/2) (1/2)) (Vec2 (1/5) (1/5)) (Vec2 (1/10) (1/5))
     0x37 (Vec4 0 0 0 1) (Vec4 0 0 0 1) (Vec4 1 0 0 1) (Vec4 1 1 1 1) (Vec4 1 1 1 1) (Vec4 1 1 1 1)
     = Vec4 1 (3/5) (3/5) 1"
proof -
  have h: "P 0x37 0xbf 0x37 \<or> P 0x37 0xdb 0x13" by (simp add: P_def)
  have d: "is_different (Vec4 0 0 0 1) (Vec4 1 1 1 1)"
    by (simp add: is_different_def rgb_to_hq_colospace_def)
  have p: "P 0x37 0xbf 0x37" by (simp add: P_def)
  from first_match_slope_x [OF h, of "Vec2 5 5" "Vec2 20 15" dot_image "Vec2 (1/2) (1/2)"
      "Vec2 (1/5) (1/5)" "Vec2 (1/10) (1/5)" "Vec4 0 0 0 1" "Vec4 0 0 0 1" "Vec4 1 0 0 1"
      "Vec4 1 1 1 1" "Vec4 1 1 1 1" "Vec4 1 1 1 1"] d p
  show ?thesis by (simp add: mix_def)
qed

text \<open>
  C1, as amended. When all eight neighbours are classified different from the centre
  (base pattern \<open>0xFF\<close>), the disambiguator is not reached: \<open>scale\<close> returns the centre
  colour \<open>w4\<close> when \<open>is_different w3 w1\<close> holds (third rule) or when \<open>p\<close> is nearer than
  \<open>0.5 - pixel_size / 2\<close> to the centre of the pixel, and otherwise the circular rule of
  \<^verbatim>\<open>P(0x2f,0x2f)\<close> returns the corner colour \<open>r\<close> or its blend with \<open>w4\<close>.
\<close>

theorem all_neighbours_different:
  assumes "is_different w0 w4" "is_different w1 w4" "is_different w2 w4" "is_different w3 w4"
    "is_different w5 w4" "is_different w6 w4" "is_different w7 w4" "is_different w8 w4"
  shows "rules s t img c ofs p (base_pattern w0 w1 w2 w3 w4 w5 w6 w7 w8) w0 w1 w3 w4 w5 w7 =
     (let dist = length2 (Vec2 (vx p - 0.5) (vy p - 0.5)); pixel_size = pixel_len s t
      in if is_different w3 w1 \<or> dist < 0.5 - pixel_size / 2 then w4
         else if dist > 0.5 + pixel_size / 2 then corner_r w0 w1 w3 p
         else mix w4 (corner_r w0 w1 w3 p) ((dist - 0.5 + pixel_size / 2) / pixel_size))"
  using assms by (simp add: base_pattern_all rules_255 rule_circle_def Let_def)

theorem all_neighbours_different_witness:
  "is_different (Vec4 0 0 0 1) (Vec4 1 1 1 1) \<and> is_different (Vec4 1 0 0 1) (Vec4 1 1 1 1) \<and>
   rules (Vec2 5 5) (Vec2 20 15) dot_image (Vec2 (1/2) (1/2)) (Vec2 (1/5) (1/5)) (Vec2 (1/10) (1/5))
     (base_pattern (Vec4 0 0 0 1) (Vec4 0 0 0 1) (Vec4 0 0 0 1) (Vec4 1 0 0 1) (Vec4 1 1 1 1)
        (Vec4 0 0 0 1) (Vec4 0 0 0 1) (Vec4 0 0 0 1) (Vec4 0 0 0 1))
     (Vec4 0 0 0 1) (Vec4 0 0 0 1) (Vec4 1 0 0 1) (Vec4 1 1 1 1) (Vec4 0 0 0 1) (Vec4 0 0 0 1)
     = Vec4 1 1 1 1"
proof -
  have d: "is_different (Vec4 0 0 0 1) (Vec4 1 1 1 1)" "is_different (Vec4 1 0 0 1) (Vec4 1 1 1 1)"
    "is_different (Vec4 1 0 0 1) (Vec4 0 0 0 1)"
    by (simp_all add: is_different_def rgb_to_hq_colospace_def)
  from all_neighbours_different [of "Vec4 0 0 0 1" "Vec4 1 1 1 1" "Vec4 0 0 0 1" "Vec4 0 0 0 1"
      "Vec4 1 0 0 1" "Vec4 0 0 0 1" "Vec4 0 0 0 1" "Vec4 0 0 0 1" "Vec4 0 0 0 1"
      "Vec2 5 5" "Vec2 20 15" dot_image "Vec2 (1/2) (1/2)" "Vec2 (1/5) (1/5)" "Vec2 (1/10) (1/5)"] d
  show ?thesis by (simp add: Let_def)
qed

lemma pixel_len_5_20_15: "pixel_len (Vec2 5 5) (Vec2 20 15) = 5/12"
proof -
  have "sqrt (25/144) = 5/12" by (rule sqrt_eqI) simp_all
  then show ?thesis by (simp add: pixel_len_def length2_def)
qed

text \<open>
  The claim as stated fails for a white pixel surrounded by black ones: the eight
  neighbours and the seven samples of the extended ring all differ from the centre (the
  bias would be 8), and the result near the corner of the pixel is the half-way blend.
\<close>

theorem isolated_pixel_counterexample:
  "texture dot_image (Vec2 (11/25) (21/50)) = Vec4 1 1 1 1 \<and>
   list_all (\<lambda>(dx, dy). is_different (texture dot_image (Vec2 (11/25 + dx / 5) (21/50 + dy / 5)))
                                      (Vec4 1 1 1 1))
     [(- 1, - 1), (0, - 1), (1, - 1), (- 1, 0), (1, 0), (- 1, 1), (0, 1), (1, 1),
      (- 2, - 2), (- 1, - 2), (0, - 2), (1, - 2), (- 2, - 1), (- 2, 0), (- 2, 1)] \<and>
   ring_bias dot_image (Vec2 (11/25) (21/50)) (Vec2 (1/5) (1/5)) 255 (Vec4 1 1 1 1) = 8 \<and>
   scale (Vec2 5 5) (Vec2 20 15) dot_image (Vec2 (11/25) (21/50)) = Vec4 (1/2) (1/2) (1/2) 1"
proof -
  have d: "is_different (Vec4 0 0 0 1) (Vec4 1 1 1 1)"
    by (simp add: is_different_def rgb_to_hq_colospace_def)
  have fq: "flip_quadrant (pixel_offset (Vec2 5 5)) (fract_pos (Vec2 5 5) (Vec2 (11/25) (21/50)))
      = (Vec2 (1/5) (1/5), Vec2 (1/5) (1/10))"
    by (simp add: pixel_offset_def fract_pos_def flip_quadrant_def frac_def)
  have bp: "base_pattern (Vec4 0 0 0 1) (Vec4 0 0 0 1) (Vec4 0 0 0 1) (Vec4 0 0 0 1) (Vec4 1 1 1 1)
      (Vec4 0 0 0 1) (Vec4 0 0 0 1) (Vec4 0 0 0 1) (Vec4 0 0 0 1) = 255"
    by (simp add: base_pattern_all d)
  have sc: "scale (Vec2 5 5) (Vec2 20 15) dot_image (Vec2 (11/25) (21/50)) =
      rules (Vec2 5 5) (Vec2 20 15) dot_image (Vec2 (11/25) (21/50)) (Vec2 (1/5) (1/5))
        (Vec2 (1/5) (1/10)) 255 (Vec4 0 0 0 1) (Vec4 0 0 0 1) (Vec4 0 0 0 1) (Vec4 1 1 1 1)
        (Vec4 0 0 0 1) (Vec4 0 0 0 1)"
    unfolding scale_def Let_def fq by (simp add: tex_dot bp)
  have nd: "\<not> is_different (Vec4 0 0 0 1) (Vec4 0 0 0 1)" by (rule is_different_refl)
  have s4: "sqrt (1/4) = 1/2" by (rule sqrt_eqI) simp_all
  have rc: "rule_circle (Vec2 5 5) (Vec2 20 15) (Vec2 (1/5) (1/10)) (Vec4 0 0 0 1) (Vec4 0 0 0 1)
      (Vec4 0 0 0 1) (Vec4 1 1 1 1) = Vec4 (1/2) (1/2) (1/2) 1"
    by (simp add: rule_circle_def pixel_len_5_20_15 length2_def corner_r_def nd mix_def s4 Let_def)
  have s: "scale (Vec2 5 5) (Vec2 20 15) dot_image (Vec2 (11/25) (21/50)) = Vec4 (1/2) (1/2) (1/2) 1"
    by (simp only: sc rules_255 nd if_False rc)
  have rb: "ring_bias dot_image (Vec2 (11/25) (21/50)) (Vec2 (1/5) (1/5)) 255 (Vec4 1 1 1 1) = 8"
    by (simp add: ring_bias_def tex_dot extended_pattern_def mark_def d)
  show ?thesis
    by (simp add: s rb tex_dot d)
qed

subsection \<open>Distance-based blends\<close>

lemma pixel_len_nonneg: "0 \<le> pixel_len s t"
  by (simp add: pixel_len_def length2_def)

lemma band_width_spec_len: "band_width_spec Slope_45 s t = pixel_len s t"
  "band_width_spec Circular s t = pixel_len s t"
  "band_width_spec Slope_2_to_1 s t = pixel_len s t * sqrt 5"
  by (simp_all add: band_width_spec_def pixel_len_def length2_def power2_eq_square)

lemma factor_shift: "(d + w / 2 - c) / w = (d - (c - w / 2)) / (w::real)"
  by (simp add: algebra_simps)

lemma rule_circle_blend:
  "rule_circle s t p w0 w1 w3 w4 =
     aa_blend (length2 (Vec2 (vx p - 0.5) (vy p - 0.5))) 0.5 (pixel_len s t) w4 (corner_r w0 w1 w3 p)"
  by (simp add: rule_circle_def aa_blend_def Let_def algebra_simps)

lemma sqrt5_len_nonneg: "0 \<le> pixel_len s t * sqrt 5"
  by (simp add: pixel_len_nonneg)

lemma rule_slope_x_blend:
  "rule_slope_x s t p w1 w3 w4 =
     aa_blend (vx p - 2 * vy p) 0 (pixel_len s t * sqrt 5) (mix w3 w4 (vx p + 0.5)) w1"
  using sqrt5_len_nonneg [of s t]
  by (auto simp: rule_slope_x_def aa_blend_def Let_def)

lemma rule_slope_y_blend:
  "rule_slope_y s t p w1 w3 w4 =
     aa_blend (vy p - 2 * vx p) 0 (pixel_len s t * sqrt 5) (mix w1 w4 (vx p + 0.5)) w3"
  using sqrt5_len_nonneg [of s t]
  by (auto simp: rule_slope_y_def aa_blend_def Let_def)

lemma rule_far_x_blend:
  "rule_far_x s t p w0 w1 w3 w4 =
     aa_blend (vx p + 2 * vy p) 1 (pixel_len s t * sqrt 5) (corner_r w0 w1 w3 p) w4"
  using sqrt5_len_nonneg [of s t]
  by (auto simp: rule_far_x_def aa_blend_def Let_def factor_shift)

lemma rule_far_y_blend:
  "rule_far_y s t p w0 w1 w3 w4 =
     aa_blend (vy p + 2 * vx p) 1 (pixel_len s t * sqrt 5) (corner_r w0 w1 w3 p) w4"
  using sqrt5_len_nonneg [of s t]
  by (auto simp: rule_far_y_def aa_blend_def Let_def factor_shift)

lemma rule_diag_blend:
  "rule_diag s t p w0 w1 w3 w4 =
     aa_blend (vx p + vy p) 0.5 (pixel_len s t) (corner_r w0 w1 w3 p) w4"
  using pixel_len_nonneg [of s t]
  by (auto simp: rule_diag_def aa_blend_def Let_def factor_shift)

lemma disambiguate_blend:
  "disambiguate s t img c ofs p pattern w1 w3 w4 =
     (if ring_bias img c ofs pattern w4 \<le> 0
      then aa_blend (vx p + vy p) 0.5 (pixel_len s t) (mix w1 w3 (vy p - vx p + 0.5)) w4
      else w4)"
  using pixel_len_nonneg [of s t]
  by (auto simp: disambiguate_def aa_blend_def Let_def factor_shift)

text \<open>
  C8. In every distance-based blend the width of the anti-aliasing band is the Euclidean
  length of the component-wise reciprocal of the target-to-source ratio, multiplied by
  the square root of 5 exactly in the rules whose distance has a 2:1 slope, and unscaled
  in the 45-degree and circular ones: each rule is the blend of the specification of
  that width.
\<close>

theorem band_width:
  "rule_circle s t p w0 w1 w3 w4 =
     aa_blend (length2 (Vec2 (vx p - 0.5) (vy p - 0.5))) 0.5 (band_width_spec Circular s t)
       w4 (corner_r w0 w1 w3 p) \<and>
   rule_slope_x s t p w1 w3 w4 =
     aa_blend (vx p - 2 * vy p) 0 (band_width_spec Slope_2_to_1 s t) (mix w3 w4 (vx p + 0.5)) w1 \<and>
   rule_slope_y s t p w1 w3 w4 =
     aa_blend (vy p - 2 * vx p) 0 (band_width_spec Slope_2_to_1 s t) (mix w1 w4 (vx p + 0.5)) w3 \<and>
   rule_far_x s t p w0 w1 w3 w4 =
     aa_blend (vx p + 2 * vy p) 1 (band_width_spec Slope_2_to_1 s t) (corner_r w0 w1 w3 p) w4 \<and>
   rule_far_y s t p w0 w1 w3 w4 =
     aa_blend (vy p + 2 * vx p) 1 (band_width_spec Slope_2_to_1 s t) (corner_r w0 w1 w3 p) w4 \<and>
   rule_diag s t p w0 w1 w3 w4 =
     aa_blend (vx p + vy p) 0.5 (band_width_spec Slope_45 s t) (corner_r w0 w1 w3 p) w4 \<and>
   disambiguate s t img c ofs p pattern w1 w3 w4 =
     (if ring_bias img c ofs pattern w4 \<le> 0
      then aa_blend (vx p + vy p) 0.5 (band_width_spec Slope_45 s t)
             (mix w1 w3 (vy p - vx p + 0.5)) w4
      else w4)"
  by (simp only: band_width_spec_len rule_circle_blend rule_slope_x_blend rule_slope_y_blend
      rule_far_x_blend rule_far_y_blend rule_diag_blend disambiguate_blend simp_thms)

subsection \<open>Reading the settings\<close>

lemma assigned_ok_refl: "assigned_ok sec s s"
  by (simp add: assigned_ok_def)

lemma read_section_ok:
  "read_section sec ss = (out, e) \<Longrightarrow> list_all2 (assigned_ok sec) ss out"
proof (induction ss arbitrary: out e)
  case Nil
  then show ?case by simp
next
  case (Cons s ss)
  show ?case
  proof (cases "sec (name s) = []")
    case True
    obtain r e' where r: "read_section sec ss = (r, e')" by (cases "read_section sec ss")
    with Cons.prems True have "out = s # r" by (simp add: Let_def)
    with Cons.IH [OF r] show ?thesis by (simp add: assigned_ok_refl)
  next
    case False
    show ?thesis
    proof (cases "stoi (sec (name s))")
      case (Inl x)
      with Cons.prems False have "out = s # ss" by (simp add: Let_def)
      then show ?thesis by (simp add: assigned_ok_refl list_all2_refl)
    next
      case (Inr v)
      obtain r e' where r: "read_section sec ss = (r, e')" by (cases "read_section sec ss")
      with Cons.prems False Inr have
        "out = (if v \<ge> min_val s \<and> v \<le> max_val s then s\<lparr>val := v\<rparr> else s) # r"
        by (simp add: Let_def)
      with Cons.IH [OF r] False Inr show ?thesis by (simp add: assigned_ok_def)
    qed
  qed
qed

lemma assigned_ok_in_bounds: "assigned_ok sec s s' \<Longrightarrow> in_bounds s \<Longrightarrow> in_bounds s'"
  by (auto simp: assigned_ok_def in_bounds_def)

lemma list_all2_in_bounds:
  "list_all2 (assigned_ok sec) ss out \<Longrightarrow> list_all in_bounds ss \<Longrightarrow> list_all in_bounds out"
  by (induction rule: list_all2_induct) (auto dest: assigned_ok_in_bounds)

lemma fe_settings_in_bounds: "list_all in_bounds fe_settings"
  by (simp add: fe_settings_def in_bounds_def)

lemma read_ok:
  assumes "SettingManager_read ini st = (st', e)"
  shows "list_all2 (assigned_ok (ini ''frontend'')) (settings st) (settings st')"
    and "list_all2 (assigned_ok (ini ''nestopia'')) (core_settings st) (core_settings st')"
proof -
  obtain fs e1 where f: "read_section (ini ''frontend'') (settings st) = (fs, e1)"
    by (cases "read_section (ini ''frontend'') (settings st)")
  obtain cs e2 where c: "read_section (ini ''nestopia'') (core_settings st) = (cs, e2)"
    by (cases "read_section (ini ''nestopia'') (core_settings st)")
  note fo = read_section_ok [OF f] and co = read_section_ok [OF c]
  show "list_all2 (assigned_ok (ini ''frontend'')) (settings st) (settings st')"
    using assms f c fo by (cases e1) (auto simp: SettingManager_read_def)
  show "list_all2 (assigned_ok (ini ''nestopia'')) (core_settings st) (core_settings st')"
    using assms f c co by (cases e1) (auto simp: SettingManager_read_def assigned_ok_refl list_all2_refl)
qed

lemma stoi_4: "stoi ''4'' = Inr 4"
  by (simp add: stoi_def isspace_def isdigit_def)

lemma stoi_7: "stoi ''7'' = Inr 7"
  by (simp add: stoi_def isspace_def isdigit_def)

lemma stoi_sign_and_rest: "stoi ''  -12ab'' = Inr (-12)"
  by (simp add: stoi_def isspace_def isdigit_def)

lemma stoi_no_digit: "stoi ''abc'' = Inl invalid_argument"
  by (simp add: stoi_def isspace_def isdigit_def)

lemma stoi_too_large: "stoi ''99999999999'' = Inl out_of_range"
  by (simp add: stoi_def isspace_def isdigit_def)

lemma read_example:
  "SettingManager_read ini_example \<lparr>settings = fe_settings, core_settings = []\<rparr> =
     (\<lparr>settings = fe_settings [0 := (fe_settings ! 0)\<lparr>val := 4\<rparr>], core_settings = []\<rparr>, None)"
  by (simp add: SettingManager_read_def fe_settings_def ini_example_def stoi_4 stoi_7)

text \<open>
  C10. For every setting that \<^verbatim>\<open>SettingManager::read\<close> manages, the value of the
  configuration file is assigned only when the parsed integer lies within the declared
  range of the setting; an empty or out-of-range entry leaves the value as it was, so
  that every value that was within its bounds (as the defaults of \<open>fe_settings\<close> are) is
  within them after \<open>read\<close>, also when \<^verbatim>\<open>std::stoi\<close> throws.
\<close>

theorem read_keeps_bounds:
  assumes "SettingManager_read ini st = (st', e)"
  shows "list_all2 (assigned_ok (ini ''frontend'')) (settings st) (settings st') \<and>
         list_all2 (assigned_ok (ini ''nestopia'')) (core_settings st) (core_settings st') \<and>
         (list_all in_bounds (settings st) \<longrightarrow> list_all in_bounds (settings st')) \<and>
         (list_all in_bounds (core_settings st) \<longrightarrow> list_all in_bounds (core_settings st')) \<and>
         list_all in_bounds fe_settings"
  using read_ok [OF assms] list_all2_in_bounds fe_settings_in_bounds by blast

theorem read_keeps_bounds_witness:
  "SettingManager_read ini_example \<lparr>settings = fe_settings, core_settings = []\<rparr> =
     (\<lparr>settings = fe_settings [0 := (fe_settings ! 0)\<lparr>val := 4\<rparr>], core_settings = []\<rparr>, None) \<and>
   list_all in_bounds fe_settings \<and>
   list_all in_bounds (fe_settings [0 := (fe_settings ! 0)\<lparr>val := 4\<rparr>]) \<and>
   map val (fe_settings [0 := (fe_settings ! 0)\<lparr>val := 4\<rparr>]) = [4, 1, 0, 2, 2, 0, 0] \<and>
   stoi (ini_example ''frontend'' ''v_aspect'') = Inr 7"
proof -
  have v: "map val (fe_settings [0 := (fe_settings ! 0)\<lparr>val := 4\<rparr>]) = [4, 1, 0, 2, 2, 0, 0]"
    by (simp add: fe_settings_def)
  have s: "stoi (ini_example ''frontend'' ''v_aspect'') = Inr 7"
    by (simp add: ini_example_def stoi_7)
  from read_keeps_bounds [OF read_example] have
    "list_all in_bounds fe_settings \<longrightarrow>
       list_all in_bounds (fe_settings [0 := (fe_settings ! 0)\<lparr>val := 4\<rparr>])"
    by simp
  with fe_settings_in_bounds read_example v s show ?thesis by simp
qed

subsection \<open>Samples of the striped image\<close>



subsection \<open>Mirrored images\<close>






















subsection \<open>Rounding to binary32\<close>

text \<open>
  The rounding is within half a unit in the last place, hence within \<open>|x| / 2 ^ 24\<close> of
  \<open>x\<close> above the subnormal range; it is monotone, odd and idempotent, and on a given
  binade it is computed by \<open>round_even\<close> on the scaled argument.
\<close>

lemma round_even_err: "abs (of_int (round_even x) - x) \<le> 1 / 2"
proof -
  have "of_int \<lfloor>x\<rfloor> \<le> x" "x < of_int \<lfloor>x\<rfloor> + 1" by linarith+
  then show ?thesis by (auto simp: round_even_def Let_def)
qed

lemma round_even_eqI:
  assumes "of_int n - 1 / 2 < x" "x < of_int n + 1 / 2"
  shows "round_even x = n"
proof (cases "of_int n \<le> x")
  case True
  with assms have "\<lfloor>x\<rfloor> = n" by (intro floor_unique) linarith+
  with assms show ?thesis by (simp add: round_even_def Let_def)
next
  case False
  have e: "real_of_int (n - 1) = real_of_int n - 1" by simp
  have f: "\<lfloor>x\<rfloor> = n - 1"
  proof (rule floor_unique)
    show "of_int (n - 1) \<le> x" unfolding e using assms by linarith
    show "x < of_int (n - 1) + 1" unfolding e using False by linarith
  qed
  from assms have "\<not> x - of_int (n - 1) < 1 / 2" "x - of_int (n - 1) > 1 / 2" by simp_all
  then show ?thesis by (simp add: round_even_def Let_def f)
qed

lemma round_even_of_int: "round_even (of_int n) = n"
  by (rule round_even_eqI) simp_all

lemma round_even_nonneg: "0 \<le> x \<Longrightarrow> 0 \<le> round_even x"
  by (auto simp: round_even_def Let_def)

lemma round_even_minus: "round_even (- x) = - round_even x"
proof (cases "x = of_int \<lfloor>x\<rfloor>")
  case True
  then obtain n where "x = of_int n" ..
  then have "- x = of_int (- n)" by simp
  then show ?thesis using round_even_of_int [of "- n"] round_even_of_int [of n] \<open>x = of_int n\<close>
    by simp
next
  case False
  have b: "of_int \<lfloor>x\<rfloor> \<le> x" "x < of_int \<lfloor>x\<rfloor> + 1" by linarith+
  with False have lt: "of_int \<lfloor>x\<rfloor> < x" by (auto simp: less_le)
  have e: "real_of_int (- \<lfloor>x\<rfloor> - 1) = - real_of_int \<lfloor>x\<rfloor> - 1" by simp
  have fm: "\<lfloor>- x\<rfloor> = - \<lfloor>x\<rfloor> - 1"
  proof (rule floor_unique)
    show "of_int (- \<lfloor>x\<rfloor> - 1) \<le> - x" unfolding e using b by linarith
    show "- x < of_int (- \<lfloor>x\<rfloor> - 1) + 1" unfolding e using lt by linarith
  qed
  show ?thesis
    using lt b by (auto simp: round_even_def Let_def fm)
qed

lemma two_powr_floor_log:
  assumes "0 < a"
  shows "(2::real) powr of_int \<lfloor>log 2 a\<rfloor> \<le> a"
    "a < (2::real) powr (of_int \<lfloor>log 2 a\<rfloor> + 1)"
proof -
  have "(2::real) powr of_int \<lfloor>log 2 a\<rfloor> \<le> 2 powr (log 2 a)"
    by (rule powr_mono) simp_all
  then show "(2::real) powr of_int \<lfloor>log 2 a\<rfloor> \<le> a" using assms by simp
  have l: "log 2 a < of_int \<lfloor>log 2 a\<rfloor> + 1" by linarith
  have "(2::real) powr (log 2 a) < 2 powr (of_int \<lfloor>log 2 a\<rfloor> + 1)"
    using l by (rule powr_less_mono) simp
  then show "a < (2::real) powr (of_int \<lfloor>log 2 a\<rfloor> + 1)" using assms by simp
qed

lemma f32_err_ulp:
  "abs (f32 x - x) \<le> (2::real) powr of_int (f32_exp x) / 2"
proof (cases "x = 0")
  case True
  then show ?thesis by (simp add: f32_def)
next
  case False
  define u where "u = (2::real) powr of_int (f32_exp x)"
  define r where "r = real_of_int (round_even (x / u))"
  have up: "0 < u" by (simp add: u_def)
  have "abs (r - x / u) \<le> 1 / 2" unfolding r_def by (rule round_even_err)
  then have A: "abs (r - x / u) * u \<le> 1 / 2 * u"
    using up by (intro mult_right_mono) simp_all
  have "r * u - x = (r - x / u) * u" using up by (simp add: field_simps)
  then have B: "abs (r - x / u) * u = abs (r * u - x)" using up by (simp add: abs_mult)
  have fx: "f32 x = r * u" using False by (simp add: f32_def u_def r_def)
  have "abs (f32 x - x) \<le> u / 2" unfolding fx using A B by linarith
  then show ?thesis by (simp only: u_def)
qed

lemma f32_error: "abs (f32 x - x) \<le> abs x / 2 ^ 24 + 1 / 2 ^ 150"
proof (cases "x = 0")
  case True
  then show ?thesis by (simp add: f32_def)
next
  case False
  then have a: "0 < abs x" by simp
  have z1: "0 \<le> abs x / 2 ^ 24" and z2: "0 \<le> (1::real) / 2 ^ 150" by simp_all
  show ?thesis
  proof (cases "\<lfloor>log 2 (abs x)\<rfloor> \<ge> - 126")
    case True
    then have e: "f32_exp x = \<lfloor>log 2 (abs x)\<rfloor> - 23" by (simp add: f32_exp_def)
    have "(2::real) powr of_int (f32_exp x) = 2 powr of_int \<lfloor>log 2 (abs x)\<rfloor> / 2 ^ 23"
      by (simp add: e powr_diff)
    also have "\<dots> \<le> abs x / 2 ^ 23"
      using two_powr_floor_log(1) [OF a] by (simp add: divide_right_mono)
    finally have "(2::real) powr of_int (f32_exp x) / 2 \<le> abs x / 2 ^ 23 / 2"
      by (rule divide_right_mono) simp
    moreover have "abs x / 2 ^ 23 / 2 = abs x / 2 ^ 24" by simp
    ultimately show ?thesis using f32_err_ulp [of x] z2 by linarith
  next
    case False
    then have e: "f32_exp x = - 149" by (simp add: f32_exp_def)
    have "(2::real) powr of_int (f32_exp x) = 1 / 2 ^ 149"
      by (simp add: e powr_minus_divide)
    then have "(2::real) powr of_int (f32_exp x) / 2 = 1 / 2 ^ 149 / 2" by simp
    moreover have "(1::real) / 2 ^ 149 / 2 = 1 / 2 ^ 150" by simp
    ultimately show ?thesis using f32_err_ulp [of x] z1 by linarith
  qed
qed

lemma f32_zero: "f32 0 = 0"
  by (simp add: f32_def)

lemma f32_nonneg: "0 \<le> x \<Longrightarrow> 0 \<le> f32 x"
  by (simp add: f32_def round_even_nonneg)

lemma f32_minus: "f32 (- x) = - f32 x"
  by (simp add: f32_def f32_exp_def round_even_minus)

lemma f32_nonpos: "x \<le> 0 \<Longrightarrow> f32 x \<le> 0"
  using f32_nonneg [of "- x"] by (simp add: f32_minus)

lemma round_even_bounds: "\<lfloor>x\<rfloor> \<le> round_even x" "round_even x \<le> \<lfloor>x\<rfloor> + 1"
  by (simp_all add: round_even_def Let_def)

lemma round_even_mono:
  assumes "x \<le> y"
  shows "round_even x \<le> round_even y"
proof (cases "\<lfloor>x\<rfloor> = \<lfloor>y\<rfloor>")
  case True
  with assms show ?thesis by (auto simp: round_even_def Let_def)
next
  case False
  moreover have "\<lfloor>x\<rfloor> \<le> \<lfloor>y\<rfloor>" using assms by (rule floor_mono)
  ultimately have "\<lfloor>x\<rfloor> + 1 \<le> \<lfloor>y\<rfloor>" by simp
  with round_even_bounds(2) [of x] round_even_bounds(1) [of y] show ?thesis by linarith
qed

lemma f32_exp_eqI:
  assumes "- 126 \<le> e" "(2::real) powr of_int e \<le> abs x" "abs x < 2 powr (of_int e + 1)"
  shows "f32_exp x = e - 23"
proof -
  have p: "0 < abs x" using assms(2) by (smt (verit) powr_gt_zero)
  have "\<lfloor>log 2 (abs x)\<rfloor> = e"
  proof (rule floor_unique)
    show "of_int e \<le> log 2 (abs x)" using assms(2) p by (simp add: le_log_iff)
    show "log 2 (abs x) < of_int e + 1" using assms(3) p by (simp add: log_less_iff)
  qed
  with assms(1) show ?thesis by (simp add: f32_exp_def)
qed

lemma f32_exp_subnormal:
  assumes "x \<noteq> 0" "abs x < (2::real) powr (- 126)"
  shows "f32_exp x = - 149"
proof -
  from assms(1) have p: "0 < abs x" by simp
  have "log 2 (abs x) < - 126" using assms p by (simp add: log_less_iff)
  then have "\<lfloor>log 2 (abs x)\<rfloor> < - 126" by (simp add: floor_less_iff)
  then show ?thesis by (simp add: f32_exp_def)
qed

lemma f32_exp_mono:
  assumes "0 < x" "x \<le> y"
  shows "f32_exp x \<le> f32_exp y"
proof -
  have "log 2 x \<le> log 2 y" using assms by simp
  then have "\<lfloor>log 2 x\<rfloor> \<le> \<lfloor>log 2 y\<rfloor>" by (rule floor_mono)
  then show ?thesis using assms by (simp add: f32_exp_def)
qed

lemma f32_pos_le_binade:
  assumes "0 < x"
  shows "f32 x \<le> 2 powr of_int (f32_exp x + 24)"
proof -
  define U where "U = (2::real) powr of_int (f32_exp x)"
  have up: "0 < U" by (simp add: U_def)
  have "\<lfloor>log 2 x\<rfloor> \<le> f32_exp x + 23" using assms by (simp add: f32_exp_def)
  then have "(2::real) powr (of_int \<lfloor>log 2 x\<rfloor> + 1) \<le> 2 powr of_int (f32_exp x + 24)"
    by (intro powr_mono) simp_all
  with two_powr_floor_log(2) [OF assms] have "x \<le> 2 powr of_int (f32_exp x + 24)" by linarith
  also have "(2::real) powr of_int (f32_exp x + 24) = 2 ^ 24 * U"
    by (simp add: U_def powr_add)
  finally have "x / U \<le> 2 ^ 24" using up by (simp add: field_simps)
  then have "round_even (x / U) \<le> round_even (2 ^ 24)" by (rule round_even_mono)
  moreover have "round_even (2 ^ 24) = 2 ^ 24"
    using round_even_of_int [of "2 ^ 24"] by simp
  ultimately have "real_of_int (round_even (x / U)) \<le> 2 ^ 24" by simp
  then have "real_of_int (round_even (x / U)) * U \<le> 2 ^ 24 * U"
    using up by (intro mult_right_mono) simp_all
  moreover have "f32 x = real_of_int (round_even (x / U)) * U"
    using assms by (simp add: f32_def U_def)
  ultimately show ?thesis by (simp add: U_def powr_add)
qed

lemma f32_pos_ge_binade:
  assumes "0 < x" "- 149 < f32_exp x"
  shows "2 powr of_int (f32_exp x + 23) \<le> f32 x"
proof -
  define U where "U = (2::real) powr of_int (f32_exp x)"
  have up: "0 < U" by (simp add: U_def)
  from assms have "f32_exp x + 23 = \<lfloor>log 2 x\<rfloor>" by (simp add: f32_exp_def max_def split: if_splits)
  with two_powr_floor_log(1) [OF assms(1)] have "2 powr of_int (f32_exp x + 23) \<le> x" by simp
  moreover have "(2::real) powr of_int (f32_exp x + 23) = 2 ^ 23 * U"
    by (simp add: U_def powr_add)
  ultimately have "2 ^ 23 \<le> x / U" using up by (simp add: field_simps)
  then have "round_even (2 ^ 23) \<le> round_even (x / U)" by (rule round_even_mono)
  moreover have "round_even (2 ^ 23) = 2 ^ 23"
    using round_even_of_int [of "2 ^ 23"] by simp
  ultimately have "2 ^ 23 \<le> real_of_int (round_even (x / U))" by simp
  then have "2 ^ 23 * U \<le> real_of_int (round_even (x / U)) * U"
    using up by (intro mult_right_mono) simp_all
  moreover have "f32 x = real_of_int (round_even (x / U)) * U"
    using assms by (simp add: f32_def U_def)
  ultimately show ?thesis by (simp add: U_def powr_add)
qed

lemma f32_mono_pos:
  assumes "0 < x" "x \<le> y"
  shows "f32 x \<le> f32 y"
proof (cases "f32_exp x = f32_exp y")
  case True
  define U where "U = (2::real) powr of_int (f32_exp x)"
  have up: "0 < U" by (simp add: U_def)
  have "x / U \<le> y / U" using assms up by (simp add: divide_right_mono)
  then have "round_even (x / U) \<le> round_even (y / U)" by (rule round_even_mono)
  then have "real_of_int (round_even (x / U)) * U \<le> real_of_int (round_even (y / U)) * U"
    using up by (intro mult_right_mono) simp_all
  then show ?thesis using assms True by (simp add: f32_def U_def)
next
  case False
  with f32_exp_mono [OF assms] have lt: "f32_exp x < f32_exp y" by simp
  have "- 149 \<le> f32_exp x" by (simp add: f32_exp_def)
  with lt have y: "- 149 < f32_exp y" by simp
  have yp: "0 < y" using assms by simp
  have "f32 x \<le> 2 powr of_int (f32_exp x + 24)" using assms(1) by (rule f32_pos_le_binade)
  also have "\<dots> \<le> 2 powr of_int (f32_exp y + 23)" using lt by (intro powr_mono) simp_all
  also have "\<dots> \<le> f32 y" using yp y by (rule f32_pos_ge_binade)
  finally show ?thesis .
qed

lemma f32_mono:
  assumes "x \<le> y"
  shows "f32 x \<le> f32 y"
proof -
  consider "0 < x" | "x \<le> 0" "0 \<le> y" | "y < 0" by linarith
  then show ?thesis
  proof cases
    case 1
    then show ?thesis using assms by (rule f32_mono_pos)
  next
    case 2
    then show ?thesis using f32_nonpos [of x] f32_nonneg [of y] by linarith
  next
    case 3
    then have "0 < - y" "- y \<le> - x" using assms by simp_all
    then have "f32 (- y) \<le> f32 (- x)" by (rule f32_mono_pos)
    then show ?thesis by (simp add: f32_minus)
  qed
qed

text \<open>Evaluation at a given exponent.\<close>

lemma two_powr_int:
  "(2::real) powr of_int (- int k) = 1 / 2 ^ k"
  "(2::real) powr (of_int (- int k) + 1) = 2 / 2 ^ k"
  "(2::real) powr of_int (int k) = 2 ^ k"
  "(2::real) powr (of_int (int k) + 1) = 2 * 2 ^ k"
proof -
  show a: "(2::real) powr of_int (- int k) = 1 / 2 ^ k"
    by (simp add: powr_minus_divide powr_realpow)
  have "(2::real) powr (of_int (- int k) + 1) = 2 powr of_int (- int k) * 2 powr 1"
    by (rule powr_add)
  then show "(2::real) powr (of_int (- int k) + 1) = 2 / 2 ^ k" by (simp only: a) simp
  show c: "(2::real) powr of_int (int k) = 2 ^ k" by (simp add: powr_realpow)
  have "(2::real) powr (of_int (int k) + 1) = 2 powr of_int (int k) * 2 powr 1"
    by (rule powr_add)
  then show "(2::real) powr (of_int (int k) + 1) = 2 * 2 ^ k" by (simp only: c) simp
qed

lemma f32_eval_small:
  assumes "k \<le> 126" "1 / 2 ^ k \<le> abs x" "abs x < 2 / 2 ^ k"
  shows "f32 x = real_of_int (round_even (x * 2 ^ (k + 23))) / 2 ^ (k + 23)"
proof -
  have e: "f32_exp x = - int k - 23"
  proof (rule f32_exp_eqI)
    show "- 126 \<le> - int k" using assms(1) by simp
    show "2 powr real_of_int (- int k) \<le> abs x" unfolding two_powr_int by (rule assms(2))
    show "abs x < 2 powr (real_of_int (- int k) + 1)" unfolding two_powr_int by (rule assms(3))
  qed
  have "- int k - 23 = - int (k + 23)" by simp
  then have u: "(2::real) powr of_int (- int k - 23) = 1 / 2 ^ (k + 23)"
    by (simp only: two_powr_int)
  have nz: "x \<noteq> 0"
  proof
    assume "x = 0"
    with assms(2) have "1 / 2 ^ k \<le> (0::real)" by simp
    moreover have "(0::real) < 1 / 2 ^ k" by simp
    ultimately show False by linarith
  qed
  show ?thesis unfolding f32_def e u using nz by simp
qed

lemma f32_eval_big:
  assumes "2 ^ k \<le> abs x" "abs x < 2 * 2 ^ k"
  shows "f32 x = real_of_int (round_even (x * 2 ^ 23 / 2 ^ k)) * 2 ^ k / 2 ^ 23"
proof -
  have e: "f32_exp x = int k - 23"
  proof (rule f32_exp_eqI)
    show "- 126 \<le> int k" by simp
    show "2 powr real_of_int (int k) \<le> abs x" unfolding two_powr_int by (rule assms(1))
    show "abs x < 2 powr (real_of_int (int k) + 1)" unfolding two_powr_int by (rule assms(2))
  qed
  have u: "(2::real) powr of_int (int k - 23) = 2 ^ k / 2 ^ 23"
    by (simp add: powr_diff powr_realpow)
  have nz: "x \<noteq> 0"
  proof
    assume "x = 0"
    with assms(1) have "2 ^ k \<le> (0::real)" by simp
    moreover have "(0::real) < 2 ^ k" by simp
    ultimately show False by linarith
  qed
  show ?thesis unfolding f32_def e u using nz by simp
qed

lemma f32_027: "f32 (27 / 1000) = 14495515 / 536870912"
  by (rule f32_eval_small [where k = 6, THEN trans]) (simp_all add: round_even_def)

lemma f32_half: "f32 (1 / 2) = 1 / 2"
  by (rule f32_eval_small [where k = 1, THEN trans]) (simp_all add: round_even_def)

lemma f32_one: "f32 1 = 1"
  by (rule f32_eval_big [where k = 0, THEN trans]) (simp_all add: round_even_def)

lemma f32_exp_ge: "- 149 \<le> f32_exp x"
  by (simp add: f32_exp_def)

lemma f32_repr:
  assumes "f32_exp (of_int n * 2 powr of_int e) \<le> e"
  shows "f32 (of_int n * 2 powr of_int e) = of_int n * 2 powr of_int e"
proof (cases "n = 0")
  case True
  then show ?thesis by (simp add: f32_def)
next
  case False
  define y where "y = real_of_int n * 2 powr of_int e"
  define e' where "e' = f32_exp y"
  define d where "d = nat (e - e')"
  have le: "e' \<le> e" using assms by (simp add: e'_def y_def)
  have ed: "e = e' + int d" using le by (simp add: d_def)
  have p: "(2::real) powr of_int e = 2 powr of_int e' * 2 ^ d"
    unfolding ed by (simp add: powr_add powr_realpow)
  have pos: "(2::real) powr of_int e' > 0" by simp
  have q: "y / 2 powr of_int e' = of_int (n * 2 ^ d)"
    unfolding y_def p using pos by simp
  have nz: "y \<noteq> 0" using False by (simp add: y_def)
  have "f32 y = of_int (round_even (y / 2 powr of_int e')) * 2 powr of_int e'"
    using nz by (simp add: f32_def e'_def)
  also have "\<dots> = of_int (n * 2 ^ d) * 2 powr of_int e'"
    unfolding q round_even_of_int ..
  also have "\<dots> = y" unfolding y_def p by simp
  finally show ?thesis unfolding y_def .
qed

lemma f32_idem_pos:
  assumes "0 < x"
  shows "f32 (f32 x) = f32 x"
proof -
  define e where "e = f32_exp x"
  define n where "n = round_even (x / 2 powr of_int e)"
  have y: "f32 x = of_int n * 2 powr of_int e"
    using assms by (simp add: f32_def e_def n_def)
  have ge: "0 \<le> f32 x" using assms by (simp add: f32_nonneg)
  have le: "f32 x \<le> 2 powr of_int (e + 24)"
    using f32_pos_le_binade [OF assms] by (simp add: e_def)
  have e149: "- 149 \<le> e" by (simp add: e_def f32_exp_ge)
  consider "f32 x = 0" | "0 < f32 x" "f32 x < 2 powr of_int (e + 24)"
    | "f32 x = 2 powr of_int (e + 24)" using ge le by linarith
  then show ?thesis
  proof cases
    case 1
    then show ?thesis by (simp add: f32_zero)
  next
    case 2
    have "log 2 (f32 x) < log 2 (2 powr of_int (e + 24))"
      using 2 by (simp del: log_powr_cancel)
    then have "log 2 (f32 x) < of_int (e + 24)" by simp
    then have "\<lfloor>log 2 (f32 x)\<rfloor> < e + 24" by linarith
    then have "f32_exp (f32 x) \<le> e"
      using e149 2(1) by (simp add: f32_exp_def)
    then have "f32_exp (of_int n * 2 powr of_int e) \<le> e" by (simp add: y)
    from f32_repr [OF this] show ?thesis by (simp add: y)
  next
    case 3
    have "f32_exp (2 powr of_int (e + 24)) = e + 24 - 23"
      by (rule f32_exp_eqI) (use e149 in \<open>simp_all add: powr_add\<close>)
    then have "f32_exp (of_int 1 * 2 powr of_int (e + 24)) \<le> e + 24" by simp
    from f32_repr [OF this] show ?thesis by (simp add: 3)
  qed
qed

lemma f32_idem: "f32 (f32 x) = f32 x"
proof -
  consider "0 < x" | "x = 0" | "x < 0" by linarith
  then show ?thesis
  proof cases
    case 1
    then show ?thesis by (rule f32_idem_pos)
  next
    case 2
    then show ?thesis by (simp add: f32_zero)
  next
    case 3
    then have "f32 (f32 (- x)) = f32 (- x)" by (intro f32_idem_pos) simp
    then show ?thesis by (simp add: f32_minus)
  qed
qed

lemma f32_031: "f32 (31 / 1000) = 8321499 / 268435456"
  by (rule f32_eval_small [where k = 6, THEN trans]) (simp_all add: round_even_def)

text \<open>
  The roundings that occur in the examples below, each computed on its binade; a square
  root is rounded by comparing the squares of the two neighbouring midpoints with its
  argument.
\<close>

lemma f32_two: "f32 2 = 2"
  by (rule f32_eval_big [where k = 1, THEN trans]) (simp_all add: round_even_def)


lemma f32_val_1: "f32 (19 / 2) = 19 / 2"
  by (rule f32_eval_big [where k = 3, THEN trans]) (simp_all add: round_even_def)

lemma f32_val_2: "f32 (19 / 40) = 15938355 / 33554432"
  by (rule f32_eval_small [where k = 2, THEN trans]) (simp_all add: round_even_def)

lemma f32_val_3: "f32 (19 / 30) = 5312785 / 8388608"
  by (rule f32_eval_small [where k = 1, THEN trans]) (simp_all add: round_even_def)

lemma f32_val_4: "f32 (1 / 5) = 13421773 / 67108864"
  by (rule f32_eval_small [where k = 3, THEN trans]) (simp_all add: round_even_def)

lemma f32_val_5: "f32 (79691775 / 33554432) = 19 / 8"
  by (rule f32_eval_big [where k = 1, THEN trans]) (simp_all add: round_even_def)

lemma f32_val_6: "f32 (3 / 8) = 3 / 8"
  by (rule f32_eval_small [where k = 2, THEN trans]) (simp_all add: round_even_def)

lemma f32_val_7: "f32 (26563925 / 8388608) = 6640981 / 2097152"
  by (rule f32_eval_big [where k = 1, THEN trans]) (simp_all add: round_even_def)

lemma f32_val_8: "f32 (349525 / 2097152) = 349525 / 2097152"
  by (rule f32_eval_small [where k = 3, THEN trans]) (simp_all add: round_even_def)

lemma f32_val_9: "f32 (1 / 8) = 1 / 8"
  by (rule f32_eval_small [where k = 3, THEN trans]) (simp_all add: round_even_def)

lemma f32_val_10: "f32 (7 / 8) = 7 / 8"
  by (rule f32_eval_small [where k = 1, THEN trans]) (simp_all add: round_even_def)

lemma f32_val_11: "f32 (93952411 / 536870912) = 11744051 / 67108864"
  by (rule f32_eval_small [where k = 3, THEN trans]) (simp_all add: round_even_def)

lemma f32_val_12: "f32 (13421773 / 536870912) = 13421773 / 536870912"
  by (rule f32_eval_small [where k = 6, THEN trans]) (simp_all add: round_even_def)

lemma f32_val_13: "f32 (107374181 / 536870912) = 13421773 / 67108864"
  by (rule f32_eval_small [where k = 3, THEN trans]) (simp_all add: round_even_def)

lemma f32_val_14: "f32 (699051 / 2097152) = 699051 / 2097152"
  by (rule f32_eval_small [where k = 2, THEN trans]) (simp_all add: round_even_def)

lemma f32_val_15: "f32 (1398101 / 2097152) = 1398101 / 2097152"
  by (rule f32_eval_small [where k = 1, THEN trans]) (simp_all add: round_even_def)

lemma f32_val_16: "f32 (18764994253073 / 140737488355328) = 8947847 / 67108864"
  by (rule f32_eval_small [where k = 3, THEN trans]) (simp_all add: round_even_def)

lemma f32_val_17: "f32 (9382503837423 / 140737488355328) = 8947853 / 134217728"
  by (rule f32_eval_small [where k = 4, THEN trans]) (simp_all add: round_even_def)

lemma f32_val_18: "f32 (26843547 / 134217728) = 6710887 / 33554432"
  by (rule f32_eval_small [where k = 3, THEN trans]) (simp_all add: round_even_def)

lemma f32_val_19: "f32 (5033165 / 67108864) = 5033165 / 67108864"
  by (rule f32_eval_small [where k = 4, THEN trans]) (simp_all add: round_even_def)

lemma f32_val_20: "f32 (21810381 / 67108864) = 5452595 / 16777216"
  by (rule f32_eval_small [where k = 2, THEN trans]) (simp_all add: round_even_def)

lemma f32_val_21: "f32 (14737633 / 2147483648) = 14737633 / 2147483648"
  by (rule f32_eval_small [where k = 8, THEN trans]) (simp_all add: round_even_def)

lemma f32_val_22: "f32 (14737633 / 1073741824) = 14737633 / 1073741824"
  by (rule f32_eval_small [where k = 7, THEN trans]) (simp_all add: round_even_def)

lemma f32_val_23: "f32 (44212899 / 2147483648) = 11053225 / 536870912"
  by (rule f32_eval_small [where k = 6, THEN trans]) (simp_all add: round_even_def)

lemma f32_val_24: "f32 (14737633 / 4294967296) = 14737633 / 4294967296"
  by (rule f32_eval_small [where k = 9, THEN trans]) (simp_all add: round_even_def)

lemma f32_val_25: "f32 (1 / 4) = 1 / 4"
  by (rule f32_eval_small [where k = 2, THEN trans]) (simp_all add: round_even_def)

lemma f32_val_26: "f32 (3 / 4) = 3 / 4"
  by (rule f32_eval_small [where k = 1, THEN trans]) (simp_all add: round_even_def)

lemma f32_val_27: "f32 (391599959 / 536870912) = 12237499 / 16777216"
  by (rule f32_eval_small [where k = 1, THEN trans]) (simp_all add: round_even_def)

lemma f32_val_28: "f32 (1 / 24) = 11184811 / 268435456"
  by (rule f32_eval_small [where k = 5, THEN trans]) (simp_all add: round_even_def)

lemma f32_val_29: "f32 (1 / 3) = 11184811 / 33554432"
  by (rule f32_eval_small [where k = 2, THEN trans]) (simp_all add: round_even_def)

lemma f32_val_30: "f32 (33554433 / 268435456) = 1 / 8"
  by (rule f32_eval_small [where k = 3, THEN trans]) (simp_all add: round_even_def)

lemma f32_val_31: "f32 (78293677 / 268435456) = 4893355 / 16777216"
  by (rule f32_eval_small [where k = 2, THEN trans]) (simp_all add: round_even_def)

lemma f32_val_32: "f32 (11184811 / 268435456) = 11184811 / 268435456"
  by (rule f32_eval_small [where k = 5, THEN trans]) (simp_all add: round_even_def)

lemma f32_val_33: "f32 (100663299 / 268435456) = 3 / 8"
  by (rule f32_eval_small [where k = 2, THEN trans]) (simp_all add: round_even_def)

lemma f32_val_34: "f32 (5 / 8) = 5 / 8"
  by (rule f32_eval_small [where k = 1, THEN trans]) (simp_all add: round_even_def)

lemma f32_val_35: "f32 (73688165 / 4294967296) = 9211021 / 536870912"
  by (rule f32_eval_small [where k = 6, THEN trans]) (simp_all add: round_even_def)

lemma f32_val_36: "f32 (44212899 / 4294967296) = 11053225 / 1073741824"
  by (rule f32_eval_small [where k = 7, THEN trans]) (simp_all add: round_even_def)

lemma f32_val_37: "f32 (29475267 / 1073741824) = 7368817 / 268435456"
  by (rule f32_eval_small [where k = 6, THEN trans]) (simp_all add: round_even_def)

lemma f32_val_38: "f32 (36844085 / 2147483648) = 9211021 / 536870912"
  by (rule f32_eval_small [where k = 6, THEN trans]) (simp_all add: round_even_def)

lemma f32_val_39: "f32 (22106451 / 2147483648) = 5526613 / 536870912"
  by (rule f32_eval_small [where k = 7, THEN trans]) (simp_all add: round_even_def)

lemma f32_val_40: "f32 (7368817 / 268435456) = 7368817 / 268435456"
  by (rule f32_eval_small [where k = 6, THEN trans]) (simp_all add: round_even_def)

lemma f32_val_41: "f32 (7 / 2) = 7 / 2"
  by (rule f32_eval_big [where k = 1, THEN trans]) (simp_all add: round_even_def)

lemma f32_val_42: "f32 (7 / 24) = 9786709 / 33554432"
  by (rule f32_eval_small [where k = 2, THEN trans]) (simp_all add: round_even_def)

lemma f32_val_43: "f32 (9 / 2) = 9 / 2"
  by (rule f32_eval_big [where k = 2, THEN trans]) (simp_all add: round_even_def)


lemma f32_val_44: "f32 4 = 4"
  by (rule f32_eval_big [where k = 2, THEN trans]) (simp_all add: round_even_def)

lemma f32_val_45: "f32 (1 / 16) = 1 / 16"
  by (rule f32_eval_small [where k = 4, THEN trans]) (simp_all add: round_even_def)

lemma f32_val_46: "f32 (11863283 / 67108864) = 11863283 / 67108864"
  by (rule f32_eval_small [where k = 3, THEN trans]) (simp_all add: round_even_def)

lemma f32_val_47: "f32 (21691149 / 67108864) = 5422787 / 16777216"
  by (rule f32_eval_small [where k = 2, THEN trans]) (simp_all add: round_even_def)

lemma f32_val_48: "f32 (45417715 / 67108864) = 11354429 / 16777216"
  by (rule f32_eval_small [where k = 1, THEN trans]) (simp_all add: round_even_def)

lemma f32_val_49: "f32 (2965821 / 16777216) = 2965821 / 16777216"
  by (rule f32_eval_small [where k = 3, THEN trans]) (simp_all add: round_even_def)

lemma f32_val_50: "f32 (11354429 / 16777216) = 11354429 / 16777216"
  by (rule f32_eval_small [where k = 1, THEN trans]) (simp_all add: round_even_def)

lemma f32_val_51: "f32 (2965821 / 8388608) = 2965821 / 8388608"
  by (rule f32_eval_small [where k = 2, THEN trans]) (simp_all add: round_even_def)

lemma f32_val_52: "f32 (5422787 / 8388608) = 5422787 / 8388608"
  by (rule f32_eval_small [where k = 1, THEN trans]) (simp_all add: round_even_def)

lemma f32_val_53: "f32 (57280999 / 67108864) = 7160125 / 8388608"
  by (rule f32_eval_small [where k = 1, THEN trans]) (simp_all add: round_even_def)

lemma f32_val_54: "f32 (11863284 / 11863283) = 8388609 / 8388608"
  by (rule f32_eval_big [where k = 0, THEN trans]) (simp_all add: round_even_def)

lemma f32_val_55: "f32 (1 / 8388608) = 1 / 8388608"
  by (rule f32_eval_small [where k = 23, THEN trans]) (simp_all add: round_even_def)

lemma f32_val_56: "f32 (8388609 / 8388608) = 8388609 / 8388608"
  by (rule f32_eval_big [where k = 0, THEN trans]) (simp_all add: round_even_def)

lemma f32_val_57: "f32 (5931642 / 11863283) = 8388609 / 16777216"
  by (rule f32_eval_small [where k = 1, THEN trans]) (simp_all add: round_even_def)

lemma f32_val_58: "f32 (8388607 / 16777216) = 8388607 / 16777216"
  by (rule f32_eval_small [where k = 2, THEN trans]) (simp_all add: round_even_def)

lemma f32_val_59: "f32 (8388609 / 16777216) = 8388609 / 16777216"
  by (rule f32_eval_small [where k = 1, THEN trans]) (simp_all add: round_even_def)

lemmas f32_vals =
  f32_zero f32_one f32_half f32_two f32_minus f32_val_1 f32_val_2 f32_val_3 f32_val_4 f32_val_5
  f32_val_6 f32_val_7 f32_val_8 f32_val_9 f32_val_10 f32_val_11 f32_val_12 f32_val_13
  f32_val_14 f32_val_15 f32_val_16 f32_val_17 f32_val_18 f32_val_19 f32_val_20 f32_val_21
  f32_val_22 f32_val_23 f32_val_24 f32_val_25 f32_val_26 f32_val_27 f32_val_28 f32_val_29
  f32_val_30 f32_val_31 f32_val_32 f32_val_33 f32_val_34 f32_val_35 f32_val_36 f32_val_37
  f32_val_38 f32_val_39 f32_val_40 f32_val_41 f32_val_42 f32_val_43 f32_val_44 f32_val_45
  f32_val_46 f32_val_47 f32_val_48 f32_val_49 f32_val_50 f32_val_51 f32_val_52 f32_val_53
  f32_val_54 f32_val_55 f32_val_56 f32_val_57 f32_val_58 f32_val_59

subsection \<open>The classifier in binary32\<close>

lemma fsub_zero: "fsub (fmul x y) 0 = fmul x y"
  by (simp add: fsub_def fmul_def f32_idem)

lemma fmul_zero: "fmul 0 y = 0"
  by (simp add: fmul_def f32_zero)

text \<open>
  C3. For all colours \<open>a\<close> and \<open>b\<close>, \<open>is_different32 a b\<close> holds if and only if at least
  one axis of the absolute difference of the two colours in the perceptual space
  (\<open>0.25 r + 0.25 g + 0.25 b\<close>, \<open>0.25 r - 0.25 b\<close>, \<open>-0.125 r + 0.25 g - 0.125 b\<close>, each
  operation rounded to binary32) strictly exceeds its threshold, the thresholds being the
  binary32 values of the literals of the source: \<open>0.125\<close>, \<open>14495515 / 2 ^ 29\<close> for
  \<^verbatim>\<open>0.027\<close> and \<open>8321499 / 2 ^ 28\<close> for \<^verbatim>\<open>0.031\<close>.
\<close>

theorem is_different32_iff_spec: "is_different32 a b = is_different_spec32 a b"
  by (simp add: is_different32_def is_different_spec32_def hq_axis32_def hq_threshold32_def
      rgb_to_hq_colospace32_def Let_def f32_027 f32_031 fsub_zero fmul_zero)

lemma f32_thr_a: "f32 (14495515 / 536870912) = 14495515 / 536870912"
  by (rule f32_eval_small [where k = 6, THEN trans]) (simp_all add: round_even_def)

lemma f32_thr_b: "f32 (14495515 / 1073741824) = 14495515 / 1073741824"
  by (rule f32_eval_small [where k = 7, THEN trans]) (simp_all add: round_even_def)

text \<open>
  With the decimal thresholds \<open>0.027\<close> and \<open>0.031\<close> themselves the equivalence fails. The
  colour with red \<^verbatim>\<open>0x1.ba5e36p-4\<close> and no green or blue, against black: the second axis
  of the difference is \<^verbatim>\<open>0x1.ba5e36p-6\<close>, which exceeds \<open>0.027\<close> but is the threshold the
  shader compares with, so that the shader finds the colours not different.
\<close>

theorem is_different_threshold_counterexample:
  "\<not> is_different32 (Vec4 (14495515 / 134217728) 0 0 1) (Vec4 0 0 0 1) \<and>
   is_different_spec (Vec4 (14495515 / 134217728) 0 0 1) (Vec4 0 0 0 1)"
  by (simp add: is_different32_def is_different_spec_def hq_axis_def hq_threshold_def
      rgb_to_hq_colospace32_def Let_def fadd_def fsub_def fmul_def f32_zero f32_minus
      f32_thr_a f32_thr_b f32_027 f32_031)

subsection \<open>Flat regions in binary32\<close>

text \<open>
  A mix of two colours that are both within \<open>e\<close> of a colour \<open>c\<close> of channels between 0
  and 1, with a factor between 0 and 1, is within \<open>e + 5 / 2 ^ 24\<close> of \<open>c\<close>: the four
  roundings of a channel add at most five halves of a unit in the last place of 1.
\<close>

lemma abs_mult_bound:
  fixes a b :: real
  assumes "abs a \<le> A" "abs b \<le> B"
  shows "abs (a * b) \<le> A * B"
proof -
  have "abs a * abs b \<le> A * B"
    using assms by (intro mult_mono) (auto intro: order_trans [OF abs_ge_zero])
  then show ?thesis by (simp add: abs_mult)
qed

lemma f32_unit: "0 \<le> x \<Longrightarrow> x \<le> 1 \<Longrightarrow> 0 \<le> f32 x \<and> f32 x \<le> 1"
  using f32_nonneg [of x] f32_mono [of x 1] by (simp add: f32_one)

lemma mix_channel_near:
  assumes t: "0 \<le> t" "t \<le> 1" and c: "abs c \<le> 1"
    and x: "abs (x - c) \<le> e" and y: "abs (y - c) \<le> e" and e: "e \<le> 1 / 2 ^ 20"
  shows "abs (fadd (fmul x (fsub 1 t)) (fmul y t) - c) \<le> e + 5 / 2 ^ 24"
proof -
  define s where "s = f32 (1 - t)"
  define A where "A = f32 (x * s)"
  define B where "B = f32 (y * t)"
  define R where "R = f32 (A + B)"
  define u :: real where "u = 1 / 2 ^ 24"
  define h :: real where "h = 1 / 2 ^ 150"
  have u: "0 \<le> u" "u \<le> 1 / 16" and h: "0 \<le> h" "h \<le> u / 16"
    by (simp_all add: u_def h_def)
  have err: "abs (f32 z - z) \<le> abs z * u + h" for z
    using f32_error [of z] by (simp add: u_def h_def)
  have e0: "0 \<le> e" using x by linarith
  have eu: "e * u \<le> u / 16"
  proof -
    have "e * u \<le> (1 / 16) * u" using e u(1) by (intro mult_right_mono) simp_all
    then show ?thesis by simp
  qed
  have eh: "e * h \<le> h"
  proof -
    have "e * h \<le> 1 * h" using e h(1) by (intro mult_right_mono) simp_all
    then show ?thesis by simp
  qed
  have uu: "u * u \<le> u / 16"
  proof -
    have "u * u \<le> (1 / 16) * u" using u by (intro mult_right_mono) simp_all
    then show ?thesis by simp
  qed
  have uh: "u * h \<le> h"
  proof -
    have "u * h \<le> 1 * h" using u h(1) by (intro mult_right_mono) simp_all
    then show ?thesis by simp
  qed
  have s01: "0 \<le> s" "s \<le> 1" using f32_unit [of "1 - t"] t by (simp_all add: s_def)
  have "abs (1 - t) \<le> 1" using t by simp
  then have "abs (1 - t) * u \<le> 1 * u" using u(1) by (intro mult_right_mono)
  with err [of "1 - t"] have es: "abs (s - (1 - t)) \<le> u + h" by (simp add: s_def)
  have ax: "abs x \<le> 1 + e" using x c by linarith
  have ay: "abs y \<le> 1 + e" using y c by linarith
  have "abs (x * s) \<le> (1 + e) * 1" using ax s01 by (intro abs_mult_bound) simp_all
  then have "abs (x * s) * u \<le> (1 + e) * u" using u(1) by (intro mult_right_mono) simp_all
  with err [of "x * s"] have eA: "abs (A - x * s) \<le> u + e * u + h"
    by (simp add: A_def algebra_simps)
  have "abs (y * t) \<le> (1 + e) * 1" using ay t by (intro abs_mult_bound) simp_all
  then have "abs (y * t) * u \<le> (1 + e) * u" using u(1) by (intro mult_right_mono) simp_all
  with err [of "y * t"] have eB: "abs (B - y * t) \<le> u + e * u + h"
    by (simp add: B_def algebra_simps)
  have split: "x * s + y * t - c = x * (s - (1 - t)) + (x - c) * (1 - t) + (y - c) * t"
    by (simp add: algebra_simps)
  have "abs (x * (s - (1 - t))) \<le> (1 + e) * (u + h)"
    using ax es by (rule abs_mult_bound)
  then have p1: "abs (x * (s - (1 - t))) \<le> u + h + e * u + e * h"
    by (simp add: algebra_simps)
  have p2: "abs ((x - c) * (1 - t)) \<le> e * (1 - t)"
    using x t by (intro abs_mult_bound) simp_all
  have p3: "abs ((y - c) * t) \<le> e * t"
    using y t by (intro abs_mult_bound) simp_all
  have "e * (1 - t) + e * t = e" by (simp add: algebra_simps)
  with p1 p2 p3 have ex: "abs (x * s + y * t - c) \<le> u + h + e * u + e * h + e"
    unfolding split by linarith
  define D where "D = e + 3 * u + 3 * (e * u) + 3 * h + e * h"
  have eAB: "abs (A + B - c) \<le> D" unfolding D_def using eA eB ex by linarith
  have Dle: "D \<le> e + 4 * u" unfolding D_def using eu eh h u by linarith
  have aAB: "abs (A + B) \<le> 1 + D" using eAB c by linarith
  then have "abs (A + B) * u \<le> (1 + D) * u" using u(1) by (intro mult_right_mono)
  with err [of "A + B"] have eR: "abs (R - (A + B)) \<le> u + D * u + h"
    by (simp add: R_def algebra_simps)
  have "D * u \<le> (e + 4 * u) * u" using Dle u(1) by (intro mult_right_mono)
  then have Du: "D * u \<le> e * u + 4 * (u * u)" by (simp add: algebra_simps)
  have "abs (R - c) \<le> D + u + D * u + h" using eR eAB by linarith
  also have "\<dots> \<le> e + 5 * u" using Dle Du eu eh uu h u unfolding D_def by linarith
  finally show ?thesis
    by (simp add: R_def A_def B_def s_def fadd_def fmul_def fsub_def u_def)
qed

lemma mix32_near:
  assumes "0 \<le> t" "t \<le> 1" "unit_colour c" "close_to e x c" "close_to e y c" "e \<le> 1 / 2 ^ 20"
  shows "close_to (e + 5 / 2 ^ 24) (mix32 x y t) c"
proof -
  obtain x1 x2 x3 x4 where x: "x = Vec4 x1 x2 x3 x4" by (cases x)
  obtain y1 y2 y3 y4 where y: "y = Vec4 y1 y2 y3 y4" by (cases y)
  obtain c1 c2 c3 c4 where c: "c = Vec4 c1 c2 c3 c4" by (cases c)
  have ch: "abs (fadd (fmul xi (fsub 1 t)) (fmul yi t) - ci) \<le> e + 5 / 2 ^ 24"
    if "abs (xi - ci) \<le> e" "abs (yi - ci) \<le> e" "0 \<le> ci" "ci \<le> 1" for xi yi ci
    using that assms(1,2,6) by (intro mix_channel_near) simp_all
  have "abs (fadd (fmul x1 (fsub 1 t)) (fmul y1 t) - c1) \<le> e + 5 / 2 ^ 24"
    using assms(3-5) by (intro ch) (simp_all add: x y c close_to_def unit_colour_def)
  moreover have "abs (fadd (fmul x2 (fsub 1 t)) (fmul y2 t) - c2) \<le> e + 5 / 2 ^ 24"
    using assms(3-5) by (intro ch) (simp_all add: x y c close_to_def unit_colour_def)
  moreover have "abs (fadd (fmul x3 (fsub 1 t)) (fmul y3 t) - c3) \<le> e + 5 / 2 ^ 24"
    using assms(3-5) by (intro ch) (simp_all add: x y c close_to_def unit_colour_def)
  moreover have "abs (fadd (fmul x4 (fsub 1 t)) (fmul y4 t) - c4) \<le> e + 5 / 2 ^ 24"
    using assms(3-5) by (intro ch) (simp_all add: x y c close_to_def unit_colour_def)
  ultimately show ?thesis by (simp add: x y c close_to_def mix32_def)
qed

lemma close_to_refl: "0 \<le> e \<Longrightarrow> close_to e c c"
  by (simp add: close_to_def)

lemma close_to_mono: "close_to e a b \<Longrightarrow> e \<le> e' \<Longrightarrow> close_to e' a b"
  by (auto simp: close_to_def)

lemma is_different32_refl: "\<not> is_different32 c c"
  by (simp add: is_different32_def Let_def fsub_def f32_zero f32_027 f32_031)

lemma base_pattern32_same: "base_pattern32 c c c c c c c c c = 0"
  by (simp add: base_pattern32_def mark_def is_different32_refl)

lemma rules32_flat:
  "rules32 s t img c ofs p 0 w4 w4 w4 w4 w4 w4 =
     mix32 (mix32 w4 w4 (fsub 0.5 (vx p))) (mix32 w4 w4 (fsub 0.5 (vx p))) (fsub 0.5 (vy p))"
  by (simp add: rules32_def P_def)

lemma fract32_range: "0 \<le> fract32 x \<and> fract32 x \<le> 1"
proof -
  have "0 \<le> x - of_int \<lfloor>x\<rfloor>" "x - of_int \<lfloor>x\<rfloor> \<le> 1" by linarith+
  then show ?thesis unfolding fract32_def fsub_def by (rule f32_unit)
qed

lemma flip_quadrant32_eq:
  "flip_quadrant32 ofs p =
     (Vec2 (if vx p > 0.5 then - vx ofs else vx ofs) (if vy p > 0.5 then - vy ofs else vy ofs),
      Vec2 (if vx p > 0.5 then fsub 1 (vx p) else vx p)
           (if vy p > 0.5 then fsub 1 (vy p) else vy p))"
  by (cases ofs; cases p) (simp add: flip_quadrant32_def)

lemma flip_component_range:
  assumes "0 \<le> x" "x \<le> 1"
  shows "0 \<le> (if x > 0.5 then fsub 1 x else x) \<and> (if x > 0.5 then fsub 1 x else x) \<le> 1 / 2"
proof (cases "x > 0.5")
  case True
  then have "0 \<le> 1 - x" "1 - x \<le> 1 / 2" using assms by simp_all
  then have "0 \<le> f32 (1 - x)" "f32 (1 - x) \<le> f32 (1 / 2)"
    by (simp_all add: f32_nonneg f32_mono)
  then show ?thesis using True by (simp add: fsub_def f32_half)
next
  case False
  then show ?thesis using assms by simp
qed

lemma quadrant32_range:
  assumes "flip_quadrant32 ofs (fract_pos32 s coord) = (ofs', p)"
  shows "0 \<le> vx p \<and> vx p \<le> 1 / 2 \<and> 0 \<le> vy p \<and> vy p \<le> 1 / 2"
  using assms
    flip_component_range [of "fract32 (fmul (vx coord) (vx s))"]
    flip_component_range [of "fract32 (fmul (vy coord) (vy s))"]
    fract32_range [of "fmul (vx coord) (vx s)"] fract32_range [of "fmul (vy coord) (vy s)"]
  by (auto simp: flip_quadrant32_eq fract_pos32_def)

lemma half_minus_range:
  assumes "0 \<le> x" "x \<le> 1 / 2"
  shows "0 \<le> fsub 0.5 x \<and> fsub 0.5 x \<le> 1"
proof -
  have "0 \<le> 1 / 2 - x" "1 / 2 - x \<le> 1" using assms by simp_all
  then show ?thesis using f32_unit [of "1 / 2 - x"] by (simp add: fsub_def)
qed

lemma flat_mix_near:
  assumes "unit_colour w" "0 \<le> vx p" "vx p \<le> 1 / 2" "0 \<le> vy p" "vy p \<le> 1 / 2"
  shows "close_to (1 / 2 ^ 20)
     (mix32 (mix32 w w (fsub 0.5 (vx p))) (mix32 w w (fsub 0.5 (vx p))) (fsub 0.5 (vy p))) w"
proof -
  have a: "0 \<le> fsub 0.5 (vx p)" "fsub 0.5 (vx p) \<le> 1"
    using half_minus_range [OF assms(2,3)] by simp_all
  have b: "0 \<le> fsub 0.5 (vy p)" "fsub 0.5 (vy p) \<le> 1"
    using half_minus_range [OF assms(4,5)] by simp_all
  have "close_to (0 + 5 / 2 ^ 24) (mix32 w w (fsub 0.5 (vx p))) w"
    by (rule mix32_near [OF a assms(1)]) (simp_all add: close_to_refl)
  then have i: "close_to (5 / 2 ^ 24) (mix32 w w (fsub 0.5 (vx p))) w" by simp
  have "close_to (5 / 2 ^ 24 + 5 / 2 ^ 24)
     (mix32 (mix32 w w (fsub 0.5 (vx p))) (mix32 w w (fsub 0.5 (vx p))) (fsub 0.5 (vy p))) w"
    by (rule mix32_near [OF b assms(1) i i]) simp
  then show ?thesis by (rule close_to_mono) simp
qed

lemma scale32_flat_form:
  assumes "neighbours_equal32 s img coord"
    and "flip_quadrant32 (pixel_offset32 s) (fract_pos32 s coord) = (ofs, p)"
  shows "scale32 s t img coord =
     mix32 (mix32 (centre32 img coord) (centre32 img coord) (fsub 0.5 (vx p)))
           (mix32 (centre32 img coord) (centre32 img coord) (fsub 0.5 (vx p)))
           (fsub 0.5 (vy p))"
proof -
  obtain u v where c: "coord = Vec2 u v" by (cases coord)
  obtain a b where o: "pixel_offset32 s = Vec2 a b" by (cases "pixel_offset32 s")
  obtain ox oy where ofs: "ofs = Vec2 ox oy" by (cases ofs)
  define w where "w = texture img (Vec2 (fadd u 0) (fadd v 0))"
  from assms(1) have e:
    "texture img (Vec2 (fadd u (- a)) (fadd v (- b))) = w"
    "texture img (Vec2 (fadd u 0) (fadd v (- b))) = w"
    "texture img (Vec2 (fadd u a) (fadd v (- b))) = w"
    "texture img (Vec2 (fadd u (- a)) (fadd v 0)) = w"
    "texture img (Vec2 (fadd u a) (fadd v 0)) = w"
    "texture img (Vec2 (fadd u (- a)) (fadd v b)) = w"
    "texture img (Vec2 (fadd u 0) (fadd v b)) = w"
    "texture img (Vec2 (fadd u a) (fadd v b)) = w"
    by (simp_all add: neighbours_equal32_def centre32_def c o w_def)
  have oo: "(ox = a \<or> ox = - a) \<and> (oy = b \<or> oy = - b)"
    using assms(2) by (auto simp: flip_quadrant32_eq o ofs split: if_splits)
  have cw: "centre32 img coord = w" by (simp add: centre32_def c w_def)
  have fq: "flip_quadrant32 (pixel_offset32 s) (fract_pos32 s (Vec2 u v)) = (Vec2 ox oy, p)"
    using assms(2) by (simp add: c ofs)
  show ?thesis unfolding cw
    using oo
    by (auto simp: scale32_def Let_def fq c e w_def [symmetric]
        base_pattern32_same rules32_flat)
qed

lemma scale32_flat:
  assumes "neighbours_equal32 s img coord" "unit_colour (centre32 img coord)"
  shows "close_to (1 / 2 ^ 20) (scale32 s t img coord) (centre32 img coord)"
proof -
  obtain ofs p where fq: "flip_quadrant32 (pixel_offset32 s) (fract_pos32 s coord) = (ofs, p)"
    by (cases "flip_quadrant32 (pixel_offset32 s) (fract_pos32 s coord)")
  from quadrant32_range [OF fq] have r: "0 \<le> vx p" "vx p \<le> 1 / 2" "0 \<le> vy p" "vy p \<le> 1 / 2"
    by simp_all
  show ?thesis
    unfolding scale32_flat_form [OF assms(1) fq]
    using assms(2) r by (rule flat_mix_near)
qed

lemma neighbours_equal32_uniform: "neighbours_equal32 s (uniform_image w h c) coord"
  by (simp add: neighbours_equal32_def centre32_def texture_uniform)

lemma scale32_uniform:
  assumes "unit_colour c"
  shows "close_to (1 / 2 ^ 20) (scale32 s t (uniform_image w h c) coord) c"
  using scale32_flat [OF neighbours_equal32_uniform, of w h c coord s t] assms
  by (simp add: centre32_def texture_uniform)

text \<open>
  C4. When the eight gathered neighbours of an output coordinate all equal the centre
  colour (so that the base pattern is 0) and the channels of that colour lie between 0
  and 1, \<open>scale32\<close> returns a colour that is within \<open>1 / 2 ^ 20\<close> of the centre colour in
  every channel, for every sub-pixel position and every target resolution; consequently
  scaling an image filled with one such colour gives a colour within \<open>1 / 2 ^ 20\<close> of it
  at every output coordinate.
\<close>

theorem flat_region_close:
  "(neighbours_equal32 s img coord \<and> unit_colour (centre32 img coord) \<longrightarrow>
      close_to (1 / 2 ^ 20) (scale32 s t img coord) (centre32 img coord)) \<and>
   (unit_colour c \<longrightarrow> close_to (1 / 2 ^ 20) (scale32 s t (uniform_image w h c) coord') c)"
  using scale32_flat [of s img coord t] scale32_uniform [of c s t w h coord'] by simp

lemma scale32_uniform_form:
  assumes "flip_quadrant32 (pixel_offset32 s) (fract_pos32 s coord) = (ofs, p)"
  shows "scale32 s t (uniform_image w h c) coord =
     mix32 (mix32 c c (fsub 0.5 (vx p))) (mix32 c c (fsub 0.5 (vx p))) (fsub 0.5 (vy p))"
  using scale32_flat_form [OF neighbours_equal32_uniform assms, of t w h c]
  by (simp add: centre32_def texture_uniform)

lemma pixel_coord32_9_9:
  "pixel_coord32 20 15 9 9 = Vec2 (15938355 / 33554432) (5312785 / 8388608)"
  by (simp add: pixel_coord32_def fadd_def fdiv_def f32_vals)

lemma quadrant32_9_9:
  "flip_quadrant32 (pixel_offset32 (Vec2 5 5))
      (fract_pos32 (Vec2 5 5) (Vec2 (15938355 / 33554432) (5312785 / 8388608)))
     = (Vec2 (13421773 / 67108864) (13421773 / 67108864), Vec2 (3 / 8) (349525 / 2097152))"
proof -
  have f: "\<lfloor>19 / 8 :: real\<rfloor> = 2" "\<lfloor>6640981 / 2097152 :: real\<rfloor> = 3" by linarith+
  show ?thesis
    by (simp add: flip_quadrant32_eq pixel_offset32_def fract_pos32_def fract32_def
        fmul_def fdiv_def fsub_def f32_vals f)
qed

text \<open>
  The colour returned is not always the centre colour itself: rule \<^verbatim>\<open>P(0x0b,0x00)\<close> mixes
  the colour with itself twice, and \<^verbatim>\<open>c * (1 - a) + c * a\<close> is rounded. An image of 5 by
  5 pixels filled with the grey \<^verbatim>\<open>0x1.99999ap-3\<close> (the binary32 value of 51/255), scaled
  to 20 by 15: at the output pixel (9, 9) the fractional position is
  \<open>(3 / 8, 349525 / 2097152)\<close> and the result is the grey \<^verbatim>\<open>0x1.99999cp-3\<close>.
\<close>

theorem flat_region_inexact_counterexample:
  "neighbours_equal32 (Vec2 5 5) (uniform_image 5 5 grey_51) (pixel_coord32 20 15 9 9) \<and>
   centre32 (uniform_image 5 5 grey_51) (pixel_coord32 20 15 9 9) = grey_51 \<and>
   scale32 (Vec2 5 5) (Vec2 20 15) (uniform_image 5 5 grey_51) (pixel_coord32 20 15 9 9)
     = Vec4 (6710887 / 33554432) (6710887 / 33554432) (6710887 / 33554432) 1 \<and>
   scale32 (Vec2 5 5) (Vec2 20 15) (uniform_image 5 5 grey_51) (pixel_coord32 20 15 9 9)
     \<noteq> grey_51"
proof -
  have "scale32 (Vec2 5 5) (Vec2 20 15) (uniform_image 5 5 grey_51) (pixel_coord32 20 15 9 9)
     = Vec4 (6710887 / 33554432) (6710887 / 33554432) (6710887 / 33554432) 1"
    unfolding pixel_coord32_9_9 scale32_uniform_form [OF quadrant32_9_9]
    by (simp add: mix32_def fadd_def fsub_def fmul_def f32_vals)
  then show ?thesis
    by (simp add: neighbours_equal32_uniform centre32_def texture_uniform)
qed

theorem flat_region_close_witness:
  "neighbours_equal32 (Vec2 5 5) dot_image (Vec2 (1 / 8) (1 / 8)) \<and>
   centre32 dot_image (Vec2 (1 / 8) (1 / 8)) = black \<and>
   close_to (1 / 2 ^ 20) (scale32 (Vec2 5 5) (Vec2 20 15) dot_image (Vec2 (1 / 8) (1 / 8)))
     black \<and>
   close_to (1 / 2 ^ 20)
     (scale32 (Vec2 5 5) (Vec2 20 15) (uniform_image 5 5 (Vec4 1 (1 / 5) 0 1))
        (Vec2 (1 / 8) (1 / 8)))
     (Vec4 1 (1 / 5) 0 1)"
proof -
  have f: "\<lfloor>- (25165825 / 67108864) :: real\<rfloor> = - 1" "\<lfloor>27262975 / 16777216 :: real\<rfloor> = 1"
    by linarith+
  have c: "centre32 dot_image (Vec2 (1 / 8) (1 / 8)) = black"
    by (simp add: centre32_def tex_dot fadd_def f32_vals)
  have n: "neighbours_equal32 (Vec2 5 5) dot_image (Vec2 (1 / 8) (1 / 8))"
    by (simp add: neighbours_equal32_def c pixel_offset32_def tex_dot fadd_def fdiv_def
        f32_vals f)
  have u: "unit_colour black" "unit_colour (Vec4 1 (1 / 5) 0 1)"
    by (simp_all add: unit_colour_def)
  from n c u flat_region_close [of "Vec2 5 5" dot_image "Vec2 (1 / 8) (1 / 8)" "Vec2 20 15"
      "Vec4 1 (1 / 5) 0 1" 5 5 "Vec2 (1 / 8) (1 / 8)"]
  show ?thesis by simp
qed

subsection \<open>A horizontal edge in binary32\<close>














subsection \<open>Distance-based blends in binary32\<close>
































end
